theory Spec2Isabelle
  imports Complex_Main "HOL-Library.Product_Lexorder" "HOL-Library.Log_Nat"
begin

section \<open>JavaScript values and string primitives used by app.js\<close>

text \<open>
  The browser client \<^verbatim>\<open>frontend/static/js/app.js\<close> is embedded function by function.

  A JavaScript Number is an IEEE 754 double: NaN, an infinity, or a finite double, which
  is modelled by the real number it denotes (the two zeros are one value: among the
  operations used here they differ only in a sign that is never printed).
\<close>

datatype js_number = NaN | PosInfinity | NegInfinity | Num real

text \<open>
  The values \<^verbatim>\<open>formatTimestamp\<close> can be given come from parsed JSON or are absent. The
  function looks at its argument through \<^verbatim>\<open>!seconds\<close> (ToBoolean) and through the
  arithmetic operators (ToNumber) only, so a value that is neither a number nor absent (a
  boolean, a string, an array, an object) is given by what these two conversions make of
  it: \<^verbatim>\<open>true\<close> is \<open>Coerced True (Num 1)\<close>, \<^verbatim>\<open>''\<close> and \<^verbatim>\<open>false\<close> are
  \<open>Coerced False (Num 0)\<close>, \<^verbatim>\<open>'90'\<close> is \<open>Coerced True (Num 90)\<close>, \<^verbatim>\<open>[]\<close> is
  \<open>Coerced True (Num 0)\<close>, \<^verbatim>\<open>{}\<close> is \<open>Coerced True NaN\<close>. Neither conversion throws on a
  value that JSON can carry.
\<close>

datatype js_value = Undefined | Null | Number js_number | Coerced bool js_number

fun ToBoolean :: "js_value \<Rightarrow> bool" where
  "ToBoolean Undefined = False"
| "ToBoolean Null = False"
| "ToBoolean (Number NaN) = False"
| "ToBoolean (Number (Num x)) = (x \<noteq> 0)"
| "ToBoolean (Number PosInfinity) = True"
| "ToBoolean (Number NegInfinity) = True"
| "ToBoolean (Coerced b n) = b"

fun ToNumber :: "js_value \<Rightarrow> js_number" where
  "ToNumber Undefined = NaN"
| "ToNumber Null = Num 0"
| "ToNumber (Number n) = n"
| "ToNumber (Coerced b n) = n"

subsection \<open>Rounding to a double\<close>

text \<open>
  The doubles around a real \<open>v\<close> are the integer multiples of \<open>2 powi ulp_exponent v\<close>:
  53 significant bits for a normal magnitude, multiples of \<open>2 powi (- 1074)\<close> below
  \<open>2 powi (- 1022)\<close>. The binade of \<open>v\<close> is read off the bit length of
  \<open>floor (abs v * 2 ^ 1074)\<close>.
\<close>

definition ulp_exponent :: "real \<Rightarrow> int" where
  "ulp_exponent v = max (bitlen \<lfloor>\<bar>v\<bar> * 2 ^ 1074\<rfloor> - 1127) (- 1074)"

text \<open>Round to nearest, ties to even.\<close>

definition round_half_even :: "real \<Rightarrow> int" where
  "round_half_even t =
     (if t - of_int \<lfloor>t\<rfloor> < 1 / 2 then \<lfloor>t\<rfloor>
      else if 1 / 2 < t - of_int \<lfloor>t\<rfloor> then \<lfloor>t\<rfloor> + 1
      else if even \<lfloor>t\<rfloor> then \<lfloor>t\<rfloor> else \<lfloor>t\<rfloor> + 1)"

text \<open>The double nearest to a real whose magnitude is below the overflow threshold: the
  result of an arithmetic operation whose exact value is \<open>v\<close>.\<close>

definition round_double :: "real \<Rightarrow> real" where
  "round_double v =
     of_int (round_half_even (v / 2 powi ulp_exponent v)) * 2 powi ulp_exponent v"

text \<open>The reals that are finite doubles.\<close>

definition is_double :: "real \<Rightarrow> bool" where
  "is_double x = (round_double x = x \<and> \<bar>x\<bar> < 2 ^ 1024)"

subsection \<open>The operations of formatTimestamp\<close>

text \<open>\<^verbatim>\<open>seconds / 60\<close>: the exact quotient rounded to a double; dividing by 60 cannot
  overflow.\<close>

fun div60 :: "js_number \<Rightarrow> js_number" where
  "div60 (Num x) = Num (round_double (x / 60))"
| "div60 n = n"

text \<open>The remainder operator \<^verbatim>\<open>%\<close>: the quotient is truncated towards zero, so the result
  has the sign of the dividend; the result of \<^verbatim>\<open>%\<close> is exact, never rounded. The remainder
  of NaN or of an infinity is NaN.\<close>

definition js_trunc :: "real \<Rightarrow> int" where
  "js_trunc r = (if 0 \<le> r then \<lfloor>r\<rfloor> else \<lceil>r\<rceil>)"

definition js_rem :: "real \<Rightarrow> real \<Rightarrow> real" where
  "js_rem x y = x - y * of_int (js_trunc (x / y))"

fun rem60 :: "js_number \<Rightarrow> js_number" where
  "rem60 (Num x) = Num (js_rem x 60)"
| "rem60 n = NaN"

text \<open>\<^verbatim>\<open>Math.floor\<close> returns NaN, an infinity or an integral double.\<close>

datatype js_integral = IntNaN | IntPosInfinity | IntNegInfinity | Integral int

fun Math_floor :: "js_number \<Rightarrow> js_integral" where
  "Math_floor NaN = IntNaN"
| "Math_floor PosInfinity = IntPosInfinity"
| "Math_floor NegInfinity = IntNegInfinity"
| "Math_floor (Num x) = Integral \<lfloor>x\<rfloor>"

definition digit_char :: "nat \<Rightarrow> char" where
  "digit_char d = ''0123456789'' ! d"

text \<open>The decimal digits of a natural number.\<close>

function nat_toString :: "nat \<Rightarrow> string" where
  "nat_toString n =
     (if n < 10 then [digit_char n] else nat_toString (n div 10) @ [digit_char (n mod 10)])"
  by pat_completeness auto
termination
  by (relation "measure (\<lambda>n. n)") auto

declare nat_toString.simps [simp del]

text \<open>
  \<^verbatim>\<open>Number.prototype.toString\<close> prints the shortest decimal digit string that reads back as
  the same double, the nearest to the value among the shortest ones. For an integral
  double \<open>m\<close> above \<open>2 ^ 53\<close> these are the digits of a number \<open>c\<close> that rounds to \<open>m\<close> and
  has the fewest significant digits: for each count \<open>k\<close> of significant digits, from 1 on,
  the two \<open>k\<close>-digit neighbours of \<open>m\<close> are tried, the nearer one first (the even one first
  on a tie). Seventeen digits always suffice.
\<close>

definition acceptable :: "nat \<Rightarrow> nat \<Rightarrow> bool" where
  "acceptable m c = (round_double (real c) = real m)"

definition candidates :: "nat \<Rightarrow> nat \<Rightarrow> nat list" where
  "candidates m k =
     (let p = 10 ^ (length (nat_toString m) - k); lo = (m div p) * p; hi = lo + p
      in if m - lo < hi - m then [lo, hi]
         else if hi - m < m - lo then [hi, lo]
         else if even (m div p) then [lo, hi] else [hi, lo])"

definition shortest_decimal :: "nat \<Rightarrow> nat" where
  "shortest_decimal m =
     (case List.find (acceptable m) (concat (map (candidates m) [1..<18])) of
        Some c \<Rightarrow> c | None \<Rightarrow> m)"

text \<open>From \<open>10 ^ 21\<close> on the digits are printed in exponent notation: the significant
  digits, with a point after the first when there are several, then \<^verbatim>\<open>e+\<close> and the decimal
  exponent.\<close>

definition strip_zeros :: "string \<Rightarrow> string" where
  "strip_zeros s = rev (dropWhile (\<lambda>c. c = CHR ''0'') (rev s))"

definition exponent_form :: "nat \<Rightarrow> string" where
  "exponent_form c =
     (let ds = strip_zeros (nat_toString c); e = nat_toString (length (nat_toString c) - 1)
      in if length ds = 1 then ds @ ''e+'' @ e
         else hd ds # CHR ''.'' # tl ds @ ''e+'' @ e)"

text \<open>Up to \<open>2 ^ 53\<close> every integer is a double and prints as its own digits.\<close>

definition nat_Number_toString :: "nat \<Rightarrow> string" where
  "nat_Number_toString m =
     (if m \<le> 2 ^ 53 then nat_toString m
      else let c = shortest_decimal m
           in if c < 10 ^ 21 then nat_toString c else exponent_form c)"

definition int_toString :: "int \<Rightarrow> string" where
  "int_toString i =
     (if i < 0 then CHR ''-'' # nat_Number_toString (nat (- i)) else nat_Number_toString (nat i))"

text \<open>\<^verbatim>\<open>toString()\<close> on the result of \<^verbatim>\<open>Math.floor\<close>.\<close>

fun Number_toString :: "js_integral \<Rightarrow> string" where
  "Number_toString IntNaN = ''NaN''"
| "Number_toString IntPosInfinity = ''Infinity''"
| "Number_toString IntNegInfinity = ''-Infinity''"
| "Number_toString (Integral i) = int_toString i"

text \<open>\<^verbatim>\<open>String.prototype.padStart(n, c)\<close> with a one-character pad string.\<close>

definition padStart :: "nat \<Rightarrow> char \<Rightarrow> string \<Rightarrow> string" where
  "padStart n c s = replicate (n - length s) c @ s"

text \<open>
  \<^verbatim>\<open>
  function formatTimestamp(seconds) {
      if (!seconds) return '00:00';
      const mins = Math.floor(seconds / 60);
      const secs = Math.floor(seconds % 60);
      return `${mins.toString().padStart(2, '0')}:${secs.toString().padStart(2, '0')}`;
  }
  \<close>
\<close>

definition formatTimestamp :: "js_value \<Rightarrow> string" where
  "formatTimestamp seconds =
     (if \<not> ToBoolean seconds then ''00:00''
      else let mins = Math_floor (div60 (ToNumber seconds));
               secs = Math_floor (rem60 (ToNumber seconds))
           in padStart 2 CHR ''0'' (Number_toString mins) @ '':'' @
              padStart 2 CHR ''0'' (Number_toString secs))"




text \<open>
  \<^verbatim>\<open>String.prototype.trim\<close>: strips white space at both ends. Of JavaScript's white-space
  and line-terminator code units those below 256 are TAB, LF, VT, FF, CR, SPACE and
  NO-BREAK SPACE; \<open>char\<close> holds no others.
\<close>

definition isWhiteSpace :: "char \<Rightarrow> bool" where
  "isWhiteSpace c = (of_char c \<in> {9, 10, 11, 12, 13, 32, 160 :: nat})"

definition trim :: "string \<Rightarrow> string" where
  "trim s = rev (dropWhile isWhiteSpace (rev (dropWhile isWhiteSpace s)))"


section \<open>Application state\<close>

text \<open>
  A lecture as the \<^verbatim>\<open>/api/lectures/\<close> endpoint delivers it; the client reads \<^verbatim>\<open>id\<close>,
  \<^verbatim>\<open>title\<close>, \<^verbatim>\<open>description\<close> and \<^verbatim>\<open>transcript_status\<close>, the last one as a plain string.
\<close>

record lecture =
  id' :: nat
  title :: string
  description :: string
  transcript_status :: string

text \<open>A \<^verbatim>\<open>.lecture-item\<close> element: its \<^verbatim>\<open>data-lecture-id\<close> attribute and whether its class
  list holds \<^verbatim>\<open>active\<close>.\<close>

record lecture_item =
  data_lecture_id :: nat
  active :: bool

datatype sender = User | Bot

text \<open>
  The children of \<^verbatim>\<open>#chat-messages\<close>. A message element carries its sender class, its
  text and the texts of its timestamp links (no link means no sources block). A typing
  indicator is the element the pending handler holds a reference to; the number stands
  for that object identity.
\<close>

datatype chat_node = Message sender string "string list" | TypingIndicator nat

record timestamp_ref =
  start_time :: js_value
  end_time :: js_value

text \<open>The third argument of \<^verbatim>\<open>addMessageToChat\<close>: left out or undefined (the default
  \<^verbatim>\<open>[]\<close> applies), JSON null, or an array.\<close>

datatype js_refs = RefsUndefined | RefsNull | Refs "timestamp_ref list"

datatype js_error = TypeError

datatype completion = Normal | Throw js_error

text \<open>
  The module-level variables and the parts of the page the handlers read or write. The
  elements looked up by a fixed id (\<^verbatim>\<open>welcome-screen\<close>, \<^verbatim>\<open>chat-interface\<close>,
  \<^verbatim>\<open>chat-messages\<close>, \<^verbatim>\<open>chat-input-field\<close>, \<^verbatim>\<open>current-lecture-title\<close>,
  \<^verbatim>\<open>loading-overlay\<close>, \<^verbatim>\<open>toast-container\<close>) belong to the static page and are taken to
  exist. Scroll positions are left out. \<open>toastContainer\<close> records the toasts in the order
  shown; their removal by timer or click is a later event of its own.
\<close>

record app_state =
  currentLecture :: "lecture option"
  authToken :: "string option"
  welcomeScreen :: string
  chatInterface :: string
  loadingOverlay :: string
  current_lecture_title :: string
  lecture_list :: "lecture_item list"
  chat_messages :: "chat_node list"
  chat_input_field :: string
  toastContainer :: "(string \<times> string) list"
  next_node :: nat

text \<open>The requests the handlers send, with the bearer token and the lecture id they carry.\<close>

datatype request =
    AskRequest "string option" string nat
  | HistoryRequest "string option" nat
  | SummarizeRequest "string option" nat

text \<open>
  What an awaited \<^verbatim>\<open>fetch\<close> followed by \<^verbatim>\<open>response.json()\<close> can come to: the fetch
  rejects; a response arrives (with its \<^verbatim>\<open>ok\<close> flag) whose body does not parse; a
  response arrives (with its \<^verbatim>\<open>ok\<close> flag) whose body parses to \<^verbatim>\<open>null\<close>, so that reading
  a property of it throws a TypeError; an ok response with parsed data of the shape the
  endpoint delivers; a response that is not ok whose body is not null, with its \<^verbatim>\<open>detail\<close>
  field when it has one.
\<close>

datatype 'a fetch_outcome =
    FetchFailed
  | BodyUnreadable bool
  | BodyNull bool
  | Ok 'a
  | NotOk "string option"

record ask_data =
  response :: string
  timestamp_references :: js_refs

record chat =
  user_message :: string
  bot_response :: string
  chat_timestamp_references :: js_refs

text \<open>\<^verbatim>\<open>error.detail || fallback\<close>: an absent or empty detail gives the fallback.\<close>

definition detail_or :: "string option \<Rightarrow> string \<Rightarrow> string" where
  "detail_or detail fallback =
     (case detail of None \<Rightarrow> fallback | Some d \<Rightarrow> if d = [] then fallback else d)"

section \<open>User-interface helpers\<close>

definition showToast :: "string \<Rightarrow> string \<Rightarrow> app_state \<Rightarrow> app_state" where
  "showToast message type s = s\<lparr>toastContainer := toastContainer s @ [(message, type)]\<rparr>"

definition showLoading :: "app_state \<Rightarrow> app_state" where
  "showLoading s = s\<lparr>loadingOverlay := ''flex''\<rparr>"

definition hideLoading :: "app_state \<Rightarrow> app_state" where
  "hideLoading s = s\<lparr>loadingOverlay := ''none''\<rparr>"

text \<open>\<^verbatim>\<open>showDashboard\<close>: the welcome screen is shown and the chat interface hidden.\<close>

definition showDashboard :: "app_state \<Rightarrow> app_state" where
  "showDashboard s = s\<lparr>welcomeScreen := ''flex'', chatInterface := ''none''\<rparr>"

text \<open>\<^verbatim>\<open>displayLectures\<close> replaces the list by one item per lecture, none of them active;
  each item's click handler calls \<^verbatim>\<open>selectLecture\<close> with its lecture. The text an item
  shows (title, description, status label) is read by no other function and is left out.\<close>

definition displayLectures :: "lecture list \<Rightarrow> app_state \<Rightarrow> app_state" where
  "displayLectures lectures s =
     s\<lparr>lecture_list := map (\<lambda>l. \<lparr>data_lecture_id = id' l, active = False\<rparr>) lectures\<rparr>"

text \<open>The link text of one reference:
  \<^verbatim>\<open>`${formatTimestamp(ref.start_time)} - ${formatTimestamp(ref.end_time)}`\<close>.\<close>

definition link_text :: "timestamp_ref \<Rightarrow> string" where
  "link_text ref = formatTimestamp (start_time ref) @ '' - '' @ formatTimestamp (end_time ref)"

text \<open>
  \<^verbatim>\<open>addMessageToChat(message, sender, timestampRefs = [])\<close> builds the element and appends
  it to \<^verbatim>\<open>#chat-messages\<close>. The test \<^verbatim>\<open>sender === 'bot' && timestampRefs.length > 0\<close>
  reads \<^verbatim>\<open>.length\<close> only for a bot message, and throws a TypeError there when the
  argument is null; that happens before anything is appended.
\<close>

definition addMessageToChat ::
  "string \<Rightarrow> sender \<Rightarrow> js_refs \<Rightarrow> app_state \<Rightarrow> completion \<times> app_state" where
  "addMessageToChat message sndr timestampRefs s =
     (if sndr = Bot then
        (case timestampRefs of
           RefsNull \<Rightarrow> (Throw TypeError, s)
         | RefsUndefined \<Rightarrow>
             (Normal, s\<lparr>chat_messages := chat_messages s @ [Message Bot message []]\<rparr>)
         | Refs refs \<Rightarrow>
             (Normal, s\<lparr>chat_messages :=
                chat_messages s @ [Message Bot message (map link_text refs)]\<rparr>))
      else (Normal, s\<lparr>chat_messages := chat_messages s @ [Message sndr message []]\<rparr>))"

definition addTypingIndicator :: "app_state \<Rightarrow> nat \<times> app_state" where
  "addTypingIndicator s =
     (next_node s,
      s\<lparr>chat_messages := chat_messages s @ [TypingIndicator (next_node s)],
        next_node := Suc (next_node s)\<rparr>)"

text \<open>\<^verbatim>\<open>removeTypingIndicator\<close> detaches the element if it still has a parent.\<close>

definition removeTypingIndicator :: "nat \<Rightarrow> app_state \<Rightarrow> app_state" where
  "removeTypingIndicator indicator s =
     s\<lparr>chat_messages := remove1 (TypingIndicator indicator) (chat_messages s)\<rparr>"

section \<open>Chat history\<close>

text \<open>
  An \<^verbatim>\<open>async\<close> function runs synchronously up to its first \<^verbatim>\<open>await\<close> and is resumed
  later with the outcome of the request, on whatever the state is by then. Each such
  function is therefore two functions: \<open>_begin\<close>, which returns the request it sends,
  and \<open>_resume\<close>, which takes the outcome.

  \<^verbatim>\<open>
  async function loadChatHistory(lectureId) {
      try {
          const response = await fetch(`${API_BASE}/chat/history/${lectureId}`, ...);
          if (response.ok) {
              const history = await response.json();
              const chatMessages = document.getElementById('chat-messages');
              chatMessages.innerHTML = '';
              history.reverse().forEach(chat => {
                  addMessageToChat(chat.user_message, 'user');
                  addMessageToChat(chat.bot_response, 'bot', chat.timestamp_references);
              });
          }
      } catch (error) { console.error('Error loading chat history:', error); }
  }
  \<close>
\<close>

definition loadChatHistory_begin :: "nat \<Rightarrow> app_state \<Rightarrow> request" where
  "loadChatHistory_begin lectureId s = HistoryRequest (authToken s) lectureId"

text \<open>The body of the \<^verbatim>\<open>forEach\<close> callback, and the loop; an exception leaves the loop
  with the messages added so far.\<close>

definition render_chat :: "chat \<Rightarrow> app_state \<Rightarrow> completion \<times> app_state" where
  "render_chat c s =
     (case addMessageToChat (user_message c) User RefsUndefined s of
        (Throw e, s1) \<Rightarrow> (Throw e, s1)
      | (Normal, s1) \<Rightarrow> addMessageToChat (bot_response c) Bot (chat_timestamp_references c) s1)"

fun forEach_chat :: "chat list \<Rightarrow> app_state \<Rightarrow> completion \<times> app_state" where
  "forEach_chat [] s = (Normal, s)"
| "forEach_chat (c # cs) s =
     (case render_chat c s of
        (Throw e, s1) \<Rightarrow> (Throw e, s1)
      | (Normal, s1) \<Rightarrow> forEach_chat cs s1)"

text \<open>When the body of an ok response is null the messages are cleared before
  \<^verbatim>\<open>history.reverse\<close> throws.\<close>

definition loadChatHistory_resume :: "chat list fetch_outcome \<Rightarrow> app_state \<Rightarrow> app_state" where
  "loadChatHistory_resume outcome s =
     (case outcome of
        Ok history \<Rightarrow> snd (forEach_chat (rev history) (s\<lparr>chat_messages := []\<rparr>))
      | BodyNull ok \<Rightarrow> (if ok then s\<lparr>chat_messages := []\<rparr> else s)
      | _ \<Rightarrow> s)"

section \<open>Selecting a lecture\<close>

text \<open>
  \<^verbatim>\<open>
  function selectLecture(lecture) {
      currentLecture = lecture;
      document.querySelectorAll('.lecture-item').forEach(item => {
          item.classList.remove('active');
      });
      document.querySelector(`[data-lecture-id="${lecture.id}"]`).classList.add('active');
      if (lecture.transcript_status === 'completed') {
          welcomeScreen.style.display = 'none';
          chatInterface.style.display = 'flex';
          document.getElementById('current-lecture-title').textContent = lecture.title;
          loadChatHistory(lecture.id);
      } else {
          showToast('Lecture transcript is not ready yet. Please wait for processing to complete.', 'warning');
      }
  }
  \<close>
  \<^verbatim>\<open>querySelector\<close> returns the first matching element, or null when there is none, and
  then \<^verbatim>\<open>.classList\<close> throws. The function is called from the click handler of an item,
  so a matching item is on the page whenever it runs. The lecture items are taken to be
  the only elements of the page with a \<^verbatim>\<open>data-lecture-id\<close> attribute: \<^verbatim>\<open>displayLectures\<close>
  writes titles and descriptions into the page as markup, and a title that carries such an
  attribute itself could answer the selector in place of its item; which element gets the
  \<^verbatim>\<open>active\<close> class is all that depends on it.
\<close>

fun activate_first :: "nat \<Rightarrow> lecture_item list \<Rightarrow> lecture_item list option" where
  "activate_first i [] = None"
| "activate_first i (x # xs) =
     (if data_lecture_id x = i then Some (x\<lparr>active := True\<rparr> # xs)
      else map_option (\<lambda>ys. x # ys) (activate_first i xs))"

definition selectLecture ::
  "lecture \<Rightarrow> app_state \<Rightarrow> completion \<times> app_state \<times> request option" where
  "selectLecture lecture s =
     (let s1 = s\<lparr>currentLecture := Some lecture\<rparr>;
          s2 = s1\<lparr>lecture_list := map (\<lambda>item. item\<lparr>active := False\<rparr>) (lecture_list s1)\<rparr>
      in case activate_first (id' lecture) (lecture_list s2) of
           None \<Rightarrow> (Throw TypeError, s2, None)
         | Some items \<Rightarrow>
             (let s3 = s2\<lparr>lecture_list := items\<rparr>
              in if transcript_status lecture = ''completed'' then
                   (let s4 = s3\<lparr>welcomeScreen := ''none'', chatInterface := ''flex'',
                                current_lecture_title := title lecture\<rparr>
                    in (Normal, s4, Some (loadChatHistory_begin (id' lecture) s4)))
                 else
                   (Normal,
                    showToast ''Lecture transcript is not ready yet. Please wait for processing to complete.''
                      ''warning'' s3,
                    None)))"

section \<open>Asking a question\<close>

text \<open>
  \<^verbatim>\<open>
  async function handleChatMessage(e) {
      e.preventDefault();
      if (!currentLecture) { showToast('Please select a lecture first', 'warning'); return; }
      const messageInput = document.getElementById('chat-input-field');
      const message = messageInput.value.trim();
      if (!message) return;
      addMessageToChat(message, 'user');
      messageInput.value = '';
      const typingIndicator = addTypingIndicator();
      try {
          const response = await fetch(`${API_BASE}/chat/ask`, { ... body: JSON.stringify({
                  message: message, lecture_id: currentLecture.id }) });
          if (response.ok) {
              const data = await response.json();
              removeTypingIndicator(typingIndicator);
              addMessageToChat(data.response, 'bot', data.timestamp_references);
          } else {
              const error = await response.json();
              removeTypingIndicator(typingIndicator);
              showToast(error.detail || 'Failed to get response', 'error');
          }
      } catch (error) {
          console.error('Chat error:', error);
          removeTypingIndicator(typingIndicator);
          showToast('Failed to send message', 'error');
      }
  }
  \<close>
  \<open>handleChatMessage_begin\<close> returns the request together with the typing indicator the
  resumed handler will remove, or no request when a guard returns early. When the body is
  null, \<^verbatim>\<open>data.response\<close> or \<^verbatim>\<open>error.detail\<close> throws after the typing indicator has been
  removed, and the \<^verbatim>\<open>catch\<close> block runs.
\<close>

definition handleChatMessage_begin ::
  "app_state \<Rightarrow> completion \<times> app_state \<times> (request \<times> nat) option" where
  "handleChatMessage_begin s =
     (case currentLecture s of
        None \<Rightarrow> (Normal, showToast ''Please select a lecture first'' ''warning'' s, None)
      | Some lecture \<Rightarrow>
          (let message = trim (chat_input_field s)
           in if message = [] then (Normal, s, None)
              else case addMessageToChat message User RefsUndefined s of
                     (Throw e, s1) \<Rightarrow> (Throw e, s1, None)
                   | (Normal, s1) \<Rightarrow>
                       (let s2 = s1\<lparr>chat_input_field := []\<rparr>;
                            (typingIndicator, s3) = addTypingIndicator s2
                        in (Normal, s3,
                            Some (AskRequest (authToken s3) message (id' lecture),
                                  typingIndicator)))))"

text \<open>The \<^verbatim>\<open>catch\<close> block.\<close>

definition chat_catch :: "nat \<Rightarrow> app_state \<Rightarrow> app_state" where
  "chat_catch typingIndicator s =
     showToast ''Failed to send message'' ''error'' (removeTypingIndicator typingIndicator s)"

definition handleChatMessage_resume ::
  "nat \<Rightarrow> ask_data fetch_outcome \<Rightarrow> app_state \<Rightarrow> app_state" where
  "handleChatMessage_resume typingIndicator outcome s =
     (case outcome of
        FetchFailed \<Rightarrow> chat_catch typingIndicator s
      | BodyUnreadable ok \<Rightarrow> chat_catch typingIndicator s
      | BodyNull ok \<Rightarrow> chat_catch typingIndicator (removeTypingIndicator typingIndicator s)
      | Ok data \<Rightarrow>
          (case addMessageToChat (response data) Bot (timestamp_references data)
                  (removeTypingIndicator typingIndicator s) of
             (Throw e, s1) \<Rightarrow> chat_catch typingIndicator s1
           | (Normal, s1) \<Rightarrow> s1)
      | NotOk detail \<Rightarrow>
          showToast (detail_or detail ''Failed to get response'') ''error''
            (removeTypingIndicator typingIndicator s))"

text \<open>One submission with nothing else happening between the request and its outcome.\<close>

definition handleChatMessage :: "ask_data fetch_outcome \<Rightarrow> app_state \<Rightarrow> completion \<times> app_state" where
  "handleChatMessage outcome s =
     (case handleChatMessage_begin s of
        (Normal, s1, Some (req, typingIndicator)) \<Rightarrow>
          (Normal, handleChatMessage_resume typingIndicator outcome s1)
      | (c, s1, _) \<Rightarrow> (c, s1))"

section \<open>Summarizing\<close>

text \<open>
  \<^verbatim>\<open>
  async function handleSummarize() {
      if (!currentLecture) { showToast('Please select a lecture first', 'warning'); return; }
      showLoading();
      try {
          const response = await fetch(`${API_BASE}/chat/summarize/${currentLecture.id}`, ...);
          if (response.ok) {
              const data = await response.json();
              addMessageToChat('Please provide a summary of this lecture.', 'user');
              addMessageToChat(data.summary, 'bot');
          } else {
              const error = await response.json();
              showToast(error.detail || 'Failed to generate summary', 'error');
          }
      } catch (error) { showToast('Failed to generate summary', 'error'); }
      finally { hideLoading(); }
  }
  \<close>
  When the body of an ok response is null the user message has been added by the time
  \<^verbatim>\<open>data.summary\<close> throws.
\<close>

definition handleSummarize_begin :: "app_state \<Rightarrow> app_state \<times> request option" where
  "handleSummarize_begin s =
     (case currentLecture s of
        None \<Rightarrow> (showToast ''Please select a lecture first'' ''warning'' s, None)
      | Some lecture \<Rightarrow>
          (let s1 = showLoading s in (s1, Some (SummarizeRequest (authToken s1) (id' lecture)))))"

definition handleSummarize_resume :: "string fetch_outcome \<Rightarrow> app_state \<Rightarrow> app_state" where
  "handleSummarize_resume outcome s =
     hideLoading
       (case outcome of
          Ok summary \<Rightarrow>
            (case addMessageToChat ''Please provide a summary of this lecture.'' User RefsUndefined s of
               (Throw e, s1) \<Rightarrow> showToast ''Failed to generate summary'' ''error'' s1
             | (Normal, s1) \<Rightarrow>
                 (case addMessageToChat summary Bot RefsUndefined s1 of
                    (Throw e, s2) \<Rightarrow> showToast ''Failed to generate summary'' ''error'' s2
                  | (Normal, s2) \<Rightarrow> s2))
        | NotOk detail \<Rightarrow> showToast (detail_or detail ''Failed to generate summary'') ''error'' s
        | BodyNull ok \<Rightarrow>
            showToast ''Failed to generate summary'' ''error''
              (if ok then
                 snd (addMessageToChat ''Please provide a summary of this lecture.'' User
                        RefsUndefined s)
               else s)
        | _ \<Rightarrow> showToast ''Failed to generate summary'' ''error'' s)"

text \<open>The messages of the conversation on display: the children of \<^verbatim>\<open>#chat-messages\<close>
  without typing indicators.\<close>

fun is_message :: "chat_node \<Rightarrow> bool" where
  "is_message (Message sndr text links) = True"
| "is_message (TypingIndicator n) = False"

definition conversation :: "app_state \<Rightarrow> chat_node list" where
  "conversation s = filter is_message (chat_messages s)"

text \<open>What a successful answer adds to the conversation: one bot message, or nothing when
  \<^verbatim>\<open>timestamp_references\<close> is null and \<^verbatim>\<open>addMessageToChat\<close> throws.\<close>

definition bot_message :: "ask_data \<Rightarrow> chat_node list" where
  "bot_message d =
     (case timestamp_references d of
        RefsNull \<Rightarrow> []
      | RefsUndefined \<Rightarrow> [Message Bot (response d) []]
      | Refs refs \<Rightarrow> [Message Bot (response d) (map link_text refs)])"

text \<open>The toast the resumed handler shows: the one of the \<^verbatim>\<open>catch\<close> block when the fetch
  rejects, the body cannot be read or is null, or \<^verbatim>\<open>addMessageToChat\<close> throws, the server's
  detail (or the fallback text) for a response that is not ok, none for an answer that is
  added.\<close>

definition failure_toast :: "ask_data fetch_outcome \<Rightarrow> (string \<times> string) list" where
  "failure_toast outcome =
     (case outcome of
        FetchFailed \<Rightarrow> [(''Failed to send message'', ''error'')]
      | BodyUnreadable ok \<Rightarrow> [(''Failed to send message'', ''error'')]
      | BodyNull ok \<Rightarrow> [(''Failed to send message'', ''error'')]
      | NotOk detail \<Rightarrow> [(detail_or detail ''Failed to get response'', ''error'')]
      | Ok d \<Rightarrow>
          (if timestamp_references d = RefsNull then [(''Failed to send message'', ''error'')]
           else []))"

text \<open>The two elements one turn of the history is rendered as.\<close>

definition chat_nodes :: "chat \<Rightarrow> chat_node list" where
  "chat_nodes c =
     [Message User (user_message c) [],
      Message Bot (bot_response c)
        (case chat_timestamp_references c of Refs refs \<Rightarrow> map link_text refs | _ \<Rightarrow> [])]"

section \<open>Server-side components, modelled from the spec\<close>

text \<open>
  The client only sends requests; the ingestion pipeline, the embedding index and the
  retrieval engine that answer them are not part of \<^verbatim>\<open>app.js\<close>. The definitions of this
  section follow the wording of the specification.
\<close>

text \<open>Modelled from the spec: the status type of the missing ingestion pipeline,
  ``one of pending, processing, completed, failed''.\<close>

datatype TranscriptStatus = pending | processing | completed | failed







text \<open>Modelled from the spec: a chunk of the missing chunk store, which ``belongs to
  exactly one Lecture; has a stable sequence index, concatenated text, start_time/end_time
  spanning all source utterances it covers, and (once embedded) a fixed-dimension numeric
  vector''. The embedding index is the list of the embedded chunks of all lectures.\<close>

record chunk =
  lecture_id :: nat
  sequence_index :: nat
  chunk_text :: string
  chunk_start_time :: real
  chunk_end_time :: real
  vector :: "real list"

text \<open>Modelled from the spec: the ``cosine similarity to the query vector'' by which the
  missing index ranks, over real vectors.\<close>

definition dot :: "real list \<Rightarrow> real list \<Rightarrow> real" where
  "dot a b = sum_list (map2 (*) a b)"

definition cosine_similarity :: "real list \<Rightarrow> real list \<Rightarrow> real" where
  "cosine_similarity a b = dot a b / (sqrt (dot a a) * sqrt (dot b b))"

text \<open>Modelled from the spec: \<^verbatim>\<open>EmbeddingIndex.search\<close>, which is missing from the sources,
  ``returns the k chunks of that lecture with highest cosine similarity to the query
  vector, ties broken by lower chunk sequence index, restricted strictly to the given
  lecture''.\<close>

definition search :: "chunk list \<Rightarrow> nat \<Rightarrow> real list \<Rightarrow> nat \<Rightarrow> chunk list" where
  "search index lecture query_vector k =
     take k (sort_key (\<lambda>c. (- cosine_similarity (vector c) query_vector, sequence_index c))
       (filter (\<lambda>c. lecture_id c = lecture) index))"

text \<open>Modelled from the spec: the overlap test of the missing retrieval engine, two
  intervals ``overlap by more than half the shorter interval's duration''.\<close>

definition duration :: "chunk \<Rightarrow> real" where
  "duration c = chunk_end_time c - chunk_start_time c"

definition overlap :: "chunk \<Rightarrow> chunk \<Rightarrow> real" where
  "overlap a b = min (chunk_end_time a) (chunk_end_time b) - max (chunk_start_time a) (chunk_start_time b)"

definition overlaps_too_much :: "chunk \<Rightarrow> chunk \<Rightarrow> bool" where
  "overlaps_too_much a b = (min (duration a) (duration b) / 2 < overlap a b)"

text \<open>Modelled from the spec: the deduplication of the missing retrieval engine, ``if two
  returned chunks' intervals overlap by more than half the shorter interval's duration,
  only the higher-similarity one is kept''. The chunks arrive in rank order; \<open>higher\<close>
  holds the chunks ranked above the one at hand, and a chunk that overlaps one of them too
  much is dropped.\<close>

fun dedup_from :: "chunk list \<Rightarrow> chunk list \<Rightarrow> chunk list" where
  "dedup_from higher [] = []"
| "dedup_from higher (c # cs) =
     (if list_ex (\<lambda>h. overlaps_too_much h c) higher then dedup_from (higher @ [c]) cs
      else c # dedup_from (higher @ [c]) cs)"

text \<open>Modelled from the spec: the deduplication of the missing retrieval engine applied
  to a ranked result, whose first chunk has nothing ranked above it.\<close>

definition deduplicate :: "chunk list \<Rightarrow> chunk list" where
  "deduplicate cs = dedup_from [] cs"

text \<open>Modelled from the spec: the error taxonomy of the missing engine.\<close>

datatype error = NotReady | ConcurrentIngestion | CapabilityUnavailable | EmptyInput | RequestAborted

text \<open>Modelled from the spec: \<^verbatim>\<open>RetrievalEngine.retrieve\<close>, which is missing from the
  sources. It ``requires lecture status completed; otherwise fails with a not ready
  condition'', ``embeds query_text via the external embedding capability'' (the parameter
  \<open>embedder\<close>, \<open>None\<close> when the capability is unavailable), ``calls
  EmbeddingIndex.search, then deduplicates overlapping time ranges''.\<close>

definition retrieve ::
  "(string \<Rightarrow> real list option) \<Rightarrow> TranscriptStatus \<Rightarrow> chunk list \<Rightarrow>
   nat \<Rightarrow> string \<Rightarrow> nat \<Rightarrow> error + chunk list" where
  "retrieve embedder status index lecture query_text k =
     (if status \<noteq> completed then Inl NotReady
      else case embedder query_text of
             None \<Rightarrow> Inl CapabilityUnavailable
           | Some query_vector \<Rightarrow> Inr (deduplicate (search index lecture query_vector k)))"

section \<open>Example data\<close>

text \<open>Two lectures on the dashboard, one ready and one still being processed.\<close>

definition lecture_ready :: lecture where
  "lecture_ready = \<lparr>id' = 1, title = ''Loops'', description = ''Intro to loops'',
     transcript_status = ''completed''\<rparr>"

definition lecture_pending :: lecture where
  "lecture_pending = \<lparr>id' = 2, title = ''Recursion'', description = [],
     transcript_status = ''processing''\<rparr>"

definition dashboard_state :: app_state where
  "dashboard_state =
     displayLectures [lecture_ready, lecture_pending]
       (showDashboard
          \<lparr>currentLecture = None, authToken = Some ''token'', welcomeScreen = ''none'',
           chatInterface = ''none'', loadingOverlay = ''none'', current_lecture_title = [],
           lecture_list = [], chat_messages = [], chat_input_field = [],
           toastContainer = [], next_node = 0\<rparr>)"

definition asking_state :: app_state where
  "asking_state =
     (fst (snd (selectLecture lecture_ready dashboard_state)))
       \<lparr>chat_input_field := '' what is a for-loop? ''\<rparr>"

text \<open>The completed lecture is opened, then the lecture that is still processing is
  clicked.\<close>

definition open_then_pending :: app_state where
  "open_then_pending =
     fst (snd (selectLecture lecture_pending
       (fst (snd (selectLecture lecture_ready dashboard_state)))))"

definition turn_first :: chat where
  "turn_first = \<lparr>user_message = ''what is a loop?'', bot_response = ''A repetition.'',
     chat_timestamp_references = Refs [\<lparr>start_time = Number (Num 0), end_time = Number (Num 10)\<rparr>]\<rparr>"

definition turn_second :: chat where
  "turn_second = \<lparr>user_message = ''and a for-loop?'', bot_response = ''It counts.'',
     chat_timestamp_references = Refs [\<lparr>start_time = Number (Num 10), end_time = Number (Num 25)\<rparr>]\<rparr>"

definition blank_state :: app_state where
  "blank_state =
     (fst (snd (selectLecture lecture_ready dashboard_state)))
       \<lparr>chat_input_field := [CHR '' '', CHR 0x09, CHR '' '', CHR 0x0A]\<rparr>"

definition pending_selected :: app_state where
  "pending_selected =
     fst (snd (selectLecture lecture_pending (dashboard_state\<lparr>chat_input_field := ''why?''\<rparr>)))"

text \<open>An index holding two lectures with the same opening chunk.\<close>

definition example_index :: "chunk list" where
  "example_index =
     [\<lparr>lecture_id = 1, sequence_index = 0, chunk_text = ''Intro to loops'',
       chunk_start_time = 0, chunk_end_time = 40, vector = [1, 0]\<rparr>,
      \<lparr>lecture_id = 2, sequence_index = 0, chunk_text = ''Intro to loops'',
       chunk_start_time = 0, chunk_end_time = 40, vector = [1, 0]\<rparr>,
      \<lparr>lecture_id = 1, sequence_index = 1, chunk_text = ''A for-loop repeats'',
       chunk_start_time = 10, chunk_end_time = 50, vector = [0, 1]\<rparr>,
      \<lparr>lecture_id = 1, sequence_index = 2, chunk_text = ''A while-loop checks'',
       chunk_start_time = 45, chunk_end_time = 80, vector = [0, 1]\<rparr>]"

section \<open>Rounding to doubles\<close>

text \<open>Rounding to nearest: a real at or above an integer is rounded to an integer at or
  above it, a real more than one half below an integer to an integer below it.\<close>

lemma round_half_even_ge: "of_int K \<le> t \<Longrightarrow> K \<le> round_half_even t"
proof -
  assume "of_int K \<le> t"
  then have "K \<le> \<lfloor>t\<rfloor>" by (simp add: le_floor_iff)
  then show ?thesis by (auto simp: round_half_even_def)
qed

lemma round_half_even_less: "t < of_int K - 1 / 2 \<Longrightarrow> round_half_even t < K"
proof -
  assume t: "t < of_int K - 1 / 2"
  then have "t < of_int K" by linarith
  then have fl: "\<lfloor>t\<rfloor> < K" by (simp add: floor_less_iff)
  show ?thesis
  proof (cases "\<lfloor>t\<rfloor> + 1 < K")
    case True
    then show ?thesis by (auto simp: round_half_even_def)
  next
    case False
    with fl have eq: "\<lfloor>t\<rfloor> = K - 1" by linarith
    then have "t - of_int \<lfloor>t\<rfloor> < 1 / 2" using t by simp
    then show ?thesis using fl by (simp add: round_half_even_def)
  qed
qed

lemma round_half_even_of_int [simp]: "round_half_even (of_int K) = K"
  by (simp add: round_half_even_def)

text \<open>The exponent of the unit in the last place follows the binade of the value.\<close>

lemma ulp_exponent_ge: "- 1074 \<le> ulp_exponent v"
  by (simp add: ulp_exponent_def)

lemma two_powi_shift: "2 powi E * 2 ^ 1074 = (2::real) powi (E + 1074)"
  by (simp add: power_int_add)

lemma two_powi_nat: "0 \<le> E \<Longrightarrow> (2::real) powi E = 2 ^ nat E"
  by (simp add: power_int_def)

lemma ulp_exponent_le:
  assumes "\<bar>v\<bar> < 2 powi (E + 1)" and "- 1074 \<le> E - 52"
  shows "ulp_exponent v \<le> E - 52"
proof -
  let ?n = "\<lfloor>\<bar>v\<bar> * 2 ^ 1074\<rfloor>"
  have "\<bar>v\<bar> * 2 ^ 1074 < 2 powi (E + 1) * 2 ^ 1074"
    using assms(1) by simp
  also have "\<dots> = 2 powi (E + 1075)"
    by (simp add: power_int_add)
  also have "\<dots> = 2 ^ nat (E + 1075)"
    using assms(2) by (simp add: power_int_def)
  finally have "\<bar>v\<bar> * 2 ^ 1074 < of_int (2 ^ nat (E + 1075))" by simp
  then have "?n < 2 ^ nat (E + 1075)"
    by (simp only: floor_less_iff)
  then have "bitlen ?n \<le> E + 1075"
    using assms(2) by (simp add: bitlen_le_iff_power)
  then show ?thesis
    using assms(2) by (simp add: ulp_exponent_def)
qed

lemma ulp_exponent_lower:
  assumes "2 powi E \<le> \<bar>v\<bar>" and "- 1074 \<le> E"
  shows "E - 52 \<le> ulp_exponent v"
proof -
  let ?n = "\<lfloor>\<bar>v\<bar> * 2 ^ 1074\<rfloor>"
  have "(2::real) ^ nat (E + 1074) = 2 powi (E + 1074)"
    using assms(2) by (simp add: power_int_def)
  also have "\<dots> = 2 powi E * 2 ^ 1074"
    by (simp add: power_int_add)
  also have "\<dots> \<le> \<bar>v\<bar> * 2 ^ 1074"
    using assms(1) by simp
  finally have "of_int (2 ^ nat (E + 1074)) \<le> \<bar>v\<bar> * 2 ^ 1074" by simp
  then have "2 ^ nat (E + 1074) \<le> ?n"
    by (simp only: le_floor_iff)
  moreover have "nat (E + 1075) - 1 = nat (E + 1074)"
    using assms(2) by simp
  ultimately have "E + 1075 \<le> bitlen ?n"
    by (simp add: bitlen_ge_iff_power)
  then show ?thesis
    by (simp add: ulp_exponent_def)
qed

lemma ulp_exponent_normal:
  assumes "- 1074 < ulp_exponent v"
  shows "2 powi (ulp_exponent v + 52) \<le> \<bar>v\<bar>"
proof -
  let ?n = "\<lfloor>\<bar>v\<bar> * 2 ^ 1074\<rfloor>"
  from assms have e: "ulp_exponent v = bitlen ?n - 1127" and big: "54 \<le> bitlen ?n"
    by (auto simp: ulp_exponent_def max_def split: if_splits)
  then have "0 < ?n"
    using bitlen_eq_zero_iff [of ?n] by linarith
  from bitlen_bounds [OF this] have "2 ^ nat (bitlen ?n - 1) \<le> ?n" by simp
  then have "of_int (2 ^ nat (bitlen ?n - 1)) \<le> \<bar>v\<bar> * 2 ^ 1074"
    by (simp only: le_floor_iff)
  then have "(2::real) ^ nat (bitlen ?n - 1) \<le> \<bar>v\<bar> * 2 ^ 1074" by simp
  moreover have "(2::real) ^ nat (bitlen ?n - 1) = 2 powi (bitlen ?n - 1)"
    using big by (simp add: power_int_def)
  moreover have "(2::real) powi (bitlen ?n - 1) = 2 powi (ulp_exponent v + 52) * 2 ^ 1074"
    unfolding two_powi_shift e by simp
  ultimately have "2 powi (ulp_exponent v + 52) * 2 ^ 1074 \<le> \<bar>v\<bar> * 2 ^ 1074" by simp
  then show ?thesis by simp
qed

lemma ulp_exponent_subnormal:
  assumes "ulp_exponent v = - 1074"
  shows "\<bar>v\<bar> * 2 ^ 1074 < 2 ^ 53"
proof -
  let ?n = "\<lfloor>\<bar>v\<bar> * 2 ^ 1074\<rfloor>"
  from assms have "bitlen ?n \<le> 53"
    by (auto simp: ulp_exponent_def max_def split: if_splits)
  then have "?n < 2 ^ nat 53"
    by (simp only: bitlen_le_iff_power)
  then have "?n < 2 ^ 53" by simp
  then have "\<bar>v\<bar> * 2 ^ 1074 < of_int (2 ^ 53)"
    by (simp only: floor_less_iff)
  then show ?thesis by simp
qed

text \<open>While the unit in the last place is at most one, every integer is a multiple of it.\<close>

lemma two_powi_nonpos:
  assumes "e \<le> 0"
  shows "(2::real) powi e = inverse (2 ^ nat (- e))"
proof (cases "e = 0")
  case True
  then show ?thesis by simp
next
  case False
  with assms have "e < 0" by simp
  then show ?thesis by (simp add: power_int_def power_inverse [symmetric])
qed

lemma int_on_grid:
  assumes "e \<le> 0"
  shows "of_int K / 2 powi e = (of_int (K * 2 ^ nat (- e)) :: real)"
  by (simp add: two_powi_nonpos [OF assms] field_simps)

lemma grid_int:
  assumes "e \<le> 0"
  shows "(of_int (K * 2 ^ nat (- e)) :: real) * 2 powi e = of_int K"
  by (simp add: two_powi_nonpos [OF assms] field_simps)

lemma round_double_ge_int:
  assumes "of_int K \<le> q" and "0 \<le> K" and "K \<le> 2 ^ 52"
  shows "of_int K \<le> round_double q"
proof (cases "ulp_exponent q \<le> 0")
  case True
  have pos: "(0::real) < 2 powi ulp_exponent q" by simp
  have "(of_int (K * 2 ^ nat (- ulp_exponent q)) :: real) = of_int K / 2 powi ulp_exponent q"
    by (rule int_on_grid [OF True, symmetric])
  also have "\<dots> \<le> q / 2 powi ulp_exponent q"
    using assms(1) pos by (simp add: divide_right_mono)
  finally have "K * 2 ^ nat (- ulp_exponent q) \<le> round_half_even (q / 2 powi ulp_exponent q)"
    by (rule round_half_even_ge)
  then have "(of_int (K * 2 ^ nat (- ulp_exponent q)) :: real)
      \<le> of_int (round_half_even (q / 2 powi ulp_exponent q))"
    by (simp only: of_int_le_iff)
  then have "(of_int (K * 2 ^ nat (- ulp_exponent q)) :: real) * 2 powi ulp_exponent q
      \<le> round_double q"
    unfolding round_double_def using pos by (simp only: mult_le_cancel_right_pos)
  then show ?thesis
    by (simp only: grid_int [OF True])
next
  case False
  then have e: "0 < ulp_exponent q" by simp
  then have "- 1074 < ulp_exponent q" by simp
  from ulp_exponent_normal [OF this] have big: "2 powi (ulp_exponent q + 52) \<le> \<bar>q\<bar>" .
  have "(0::real) \<le> of_int K" using assms(2) by simp
  with assms(1) have "0 \<le> q" by linarith
  with big have "2 powi (ulp_exponent q + 52) \<le> q" by simp
  moreover have "(2::real) powi (ulp_exponent q + 52) = 2 powi 52 * 2 powi ulp_exponent q"
    by (simp add: power_int_add)
  ultimately have "(2::real) powi 52 \<le> q / 2 powi ulp_exponent q"
    by (simp add: pos_le_divide_eq)
  then have "of_int (2 ^ 52) \<le> q / 2 powi ulp_exponent q" by simp
  then have r: "2 ^ 52 \<le> round_half_even (q / 2 powi ulp_exponent q)"
    by (rule round_half_even_ge)
  then have Kr: "(of_int K :: real) \<le> of_int (round_half_even (q / 2 powi ulp_exponent q))"
    using assms(3) by simp
  have one: "(1::real) \<le> 2 powi ulp_exponent q"
    using e by (simp add: power_int_def)
  have rpos: "(0::real) \<le> of_int (round_half_even (q / 2 powi ulp_exponent q))"
    using r by simp
  have "of_int (round_half_even (q / 2 powi ulp_exponent q)) * (1::real)
      \<le> of_int (round_half_even (q / 2 powi ulp_exponent q)) * 2 powi ulp_exponent q"
    by (rule mult_left_mono [OF one rpos])
  with Kr show ?thesis by (simp add: round_double_def)
qed

text \<open>An integer of fewer than 54 bits, scaled by a power of two in the exponent range, is
  a double.\<close>

lemma is_double_scaled:
  assumes "\<bar>i\<bar> < 2 ^ 53" and "- 1074 \<le> s" and "s \<le> 971"
  shows "is_double (of_int i * 2 powi s)"
proof -
  define x :: real where "x = of_int i * 2 powi s"
  have absx: "\<bar>x\<bar> = of_int \<bar>i\<bar> * 2 powi s"
    by (simp add: x_def abs_mult)
  have i53: "of_int \<bar>i\<bar> < (2::real) ^ 53"
    using assms(1) by (simp only: of_int_less_numeral_power_cancel_iff)
  have pos: "(0::real) < 2 powi s" by simp
  have "\<bar>x\<bar> < 2 ^ 53 * 2 powi s"
    unfolding absx using i53 pos by (simp only: mult_less_cancel_right_pos)
  also have "(2::real) ^ 53 * 2 powi s = 2 powi ((52 + s) + 1)"
    by (simp add: power_int_add)
  finally have small: "\<bar>x\<bar> < 2 powi ((52 + s) + 1)" .
  have "ulp_exponent x \<le> (52 + s) - 52"
    by (rule ulp_exponent_le [OF small]) (use assms(2) in simp)
  then have e: "ulp_exponent x \<le> s" by simp
  define d where "d = nat (s - ulp_exponent x)"
  have "(2::real) powi s = 2 powi (ulp_exponent x + int d)"
    using e by (simp add: d_def)
  also have "\<dots> = 2 powi ulp_exponent x * 2 ^ d"
    by (simp add: power_int_add)
  finally have pw: "(2::real) powi s = 2 powi ulp_exponent x * 2 ^ d" .
  have "x = of_int i * 2 powi s"
    by (rule x_def)
  also have "\<dots> = of_int i * (2 powi ulp_exponent x * 2 ^ d)"
    by (simp only: pw)
  also have "\<dots> = of_int (i * 2 ^ d) * 2 powi ulp_exponent x"
    by simp
  finally have "x = of_int (i * 2 ^ d) * 2 powi ulp_exponent x" .
  then have ratio: "x / 2 powi ulp_exponent x = of_int (i * 2 ^ d)"
    by (simp add: nonzero_divide_eq_eq)
  have "round_double x = of_int (i * 2 ^ d) * 2 powi ulp_exponent x"
    by (simp only: round_double_def ratio round_half_even_of_int)
  also have "\<dots> = x / 2 powi ulp_exponent x * 2 powi ulp_exponent x"
    by (simp only: ratio)
  also have "\<dots> = x"
    by simp
  finally have "round_double x = x" .
  moreover have "\<bar>x\<bar> < 2 ^ 1024"
  proof -
    have "(2::real) powi ((52 + s) + 1) \<le> 2 powi 1024"
      using assms(3) by (intro power_int_increasing) simp_all
    also have "(2::real) powi 1024 = 2 ^ 1024"
      by (simp only: power_int_numeral)
    finally show ?thesis using small by linarith
  qed
  ultimately show ?thesis unfolding is_double_def x_def by blast
qed

text \<open>
  Dividing a double by 60. A double below an integer \<open>N\<close> keeps a distance of one unit in
  its last place from \<open>N\<close>; the quotient by 60 lies five binades lower, so the distance
  of the quotient from the next integer is more than half a unit in the quotient's last
  place, and rounding the quotient does not reach that integer. Below \<open>2 ^ 53\<close>
  seconds the floor of the rounded quotient is therefore the floor of the exact one.
\<close>

lemma round_double_less_int:
  assumes e0: "ulp_exponent q \<le> 0"
    and gap: "2 powi ulp_exponent q / 2 < of_int K - q"
  shows "round_double q < of_int K"
proof -
  have pos: "(0::real) < 2 powi ulp_exponent q" by simp
  have "q < of_int K - 2 powi ulp_exponent q / 2"
    using gap by linarith
  then have "q / 2 powi ulp_exponent q
      < (of_int K - 2 powi ulp_exponent q / 2) / 2 powi ulp_exponent q"
    using pos by (simp only: divide_strict_right_mono)
  also have "\<dots> = of_int K / 2 powi ulp_exponent q - 1 / 2"
    by (simp add: diff_divide_distrib)
  also have "\<dots> = of_int (K * 2 ^ nat (- ulp_exponent q)) - 1 / 2"
    by (simp only: int_on_grid [OF e0])
  finally have "round_half_even (q / 2 powi ulp_exponent q) < K * 2 ^ nat (- ulp_exponent q)"
    by (rule round_half_even_less)
  then have "(of_int (round_half_even (q / 2 powi ulp_exponent q)) :: real)
      < of_int (K * 2 ^ nat (- ulp_exponent q))"
    by (simp only: of_int_less_iff)
  then have "round_double q < of_int (K * 2 ^ nat (- ulp_exponent q)) * 2 powi ulp_exponent q"
    unfolding round_double_def using pos by (simp only: mult_less_cancel_right_pos)
  then show ?thesis
    by (simp only: grid_int [OF e0])
qed

lemma double_below_int:
  assumes dbl: "is_double x" and e0: "ulp_exponent x \<le> 0" and less: "x < of_int N"
  shows "x + 2 powi ulp_exponent x \<le> of_int N"
proof -
  have pos: "(0::real) < 2 powi ulp_exponent x" by simp
  define m where "m = round_half_even (x / 2 powi ulp_exponent x)"
  have "round_double x = x"
    using dbl unfolding is_double_def by blast
  then have "of_int m * 2 powi ulp_exponent x = x"
    unfolding round_double_def m_def .
  then have x: "x = of_int m * 2 powi ulp_exponent x"
    by (rule sym)
  have N: "of_int N = (of_int (N * 2 ^ nat (- ulp_exponent x)) :: real) * 2 powi ulp_exponent x"
    by (simp only: grid_int [OF e0])
  have "of_int m * 2 powi ulp_exponent x
      < (of_int (N * 2 ^ nat (- ulp_exponent x)) :: real) * 2 powi ulp_exponent x"
    using less x N by metis
  then have "(of_int m :: real) < of_int (N * 2 ^ nat (- ulp_exponent x))"
    using pos by (simp only: mult_less_cancel_right_pos)
  then have "m < N * 2 ^ nat (- ulp_exponent x)"
    by (simp only: of_int_less_iff)
  then have "m + 1 \<le> N * 2 ^ nat (- ulp_exponent x)"
    by linarith
  then have "(of_int (m + 1) :: real) \<le> of_int (N * 2 ^ nat (- ulp_exponent x))"
    by (simp only: of_int_le_iff)
  then have "(of_int (m + 1) :: real) * 2 powi ulp_exponent x
      \<le> of_int (N * 2 ^ nat (- ulp_exponent x)) * 2 powi ulp_exponent x"
    using pos by (simp only: mult_le_cancel_right_pos)
  then have "(of_int (m + 1) :: real) * 2 powi ulp_exponent x \<le> of_int N"
    by (simp only: grid_int [OF e0])
  moreover have "(of_int (m + 1) :: real) * 2 powi ulp_exponent x
      = of_int m * 2 powi ulp_exponent x + 2 powi ulp_exponent x"
    by (simp add: algebra_simps)
  ultimately have "(of_int m :: real) * 2 powi ulp_exponent x + 2 powi ulp_exponent x
      \<le> of_int N"
    by (simp only:)
  then show ?thesis
    using x by metis
qed

lemma gap_arith:
  fixes q P K :: real
  assumes "60 * q + 32 * P \<le> 60 * K" and "0 < P"
  shows "P / 2 < K - q"
  using assms by linarith

lemma floor_div60_exact:
  assumes dbl: "is_double x" and pos: "0 < x" and small: "x < 2 ^ 53"
  shows "\<lfloor>round_double (x / 60)\<rfloor> = \<lfloor>x / 60\<rfloor>"
proof -
  define q where "q = x / 60"
  define k where "k = \<lfloor>q\<rfloor>"
  have qpos: "0 < q" using pos by (simp add: q_def)
  have x60: "x = 60 * q" by (simp add: q_def)
  have kq: "of_int k \<le> q" and qk: "q < of_int (k + 1)"
    by (simp_all add: k_def)
  have k0: "0 \<le> k" using qpos by (simp add: k_def)
  have "\<bar>x\<bar> < 2 powi (52 + 1)" using pos small by simp
  then have "ulp_exponent x \<le> 52 - 52"
    by (rule ulp_exponent_le) simp
  then have ex0: "ulp_exponent x \<le> 0" by simp
  have "q < x" using pos by (simp add: q_def)
  then have "\<bar>q\<bar> < 2 powi (52 + 1)" using qpos small by simp
  then have "ulp_exponent q \<le> 52 - 52"
    by (rule ulp_exponent_le) simp
  then have eq0: "ulp_exponent q \<le> 0" by simp
  have "of_int k \<le> 2 ^ 53 / (60::real)"
    using kq small by (simp add: q_def)
  then have "of_int k \<le> (2::real) ^ 52" by simp
  then have k52: "k \<le> 2 ^ 52"
    by (simp only: of_int_le_numeral_power_cancel_iff)
  have lower: "of_int k \<le> round_double q"
    by (rule round_double_ge_int [OF kq k0 k52])
  have gap: "2 powi ulp_exponent q / 2 < of_int (k + 1) - q"
  proof (cases "ulp_exponent q = - 1074")
    case True
    from ulp_exponent_subnormal [OF True] qpos have "q * 2 ^ 1074 < 2 ^ 53" by simp
    then have "q < 2 ^ 53 / 2 ^ 1074" by (simp add: pos_less_divide_eq)
    also have "\<dots> \<le> (1 / 4 :: real)" by simp
    finally have "q < 1 / 4" .
    moreover have "(2::real) powi ulp_exponent q / 2 \<le> 1 / 2"
      unfolding True by simp
    moreover have "(1::real) \<le> of_int (k + 1)" using k0 by simp
    ultimately show ?thesis by linarith
  next
    case False
    with ulp_exponent_ge [of q] have "- 1074 < ulp_exponent q" by linarith
    from ulp_exponent_normal [OF this] qpos
    have "2 powi (ulp_exponent q + 52) \<le> q" by simp
    then have "32 * 2 powi (ulp_exponent q + 52) \<le> x"
      using x60 qpos by linarith
    moreover have "(32::real) * 2 powi (ulp_exponent q + 52) = 2 powi (ulp_exponent q + 57)"
    proof -
      have "(2::real) powi (ulp_exponent q + 57) = 2 powi (ulp_exponent q + 52) * 2 powi 5"
        by (simp add: power_int_add)
      then show ?thesis by simp
    qed
    ultimately have "2 powi (ulp_exponent q + 57) \<le> \<bar>x\<bar>" using pos by simp
    then have "(ulp_exponent q + 57) - 52 \<le> ulp_exponent x"
      by (rule ulp_exponent_lower) (use ulp_exponent_ge [of q] in linarith)
    then have "ulp_exponent q + 5 \<le> ulp_exponent x" by simp
    then have "(2::real) powi (ulp_exponent q + 5) \<le> 2 powi ulp_exponent x"
      by (simp add: power_int_increasing)
    moreover have "(2::real) powi (ulp_exponent q + 5) = 32 * 2 powi ulp_exponent q"
    proof -
      have "(2::real) powi (ulp_exponent q + 5) = 2 powi ulp_exponent q * 2 powi 5"
        by (simp add: power_int_add)
      then show ?thesis by simp
    qed
    ultimately have step: "(32::real) * 2 powi ulp_exponent q \<le> 2 powi ulp_exponent x" by simp
    have "x < of_int (60 * (k + 1))"
      using qk x60 by simp
    from double_below_int [OF dbl ex0 this]
    have "x + 2 powi ulp_exponent x \<le> 60 * of_int (k + 1)" by simp
    with step have "60 * q + 32 * 2 powi ulp_exponent q \<le> 60 * of_int (k + 1)"
      using x60 by linarith
    moreover have "(0::real) < 2 powi ulp_exponent q" by simp
    ultimately show ?thesis by (rule gap_arith)
  qed
  have upper: "round_double q < of_int (k + 1)"
    by (rule round_double_less_int [OF eq0 gap])
  from lower upper have "\<lfloor>round_double q\<rfloor> = k"
    by (simp add: floor_unique)
  then show ?thesis by (simp add: q_def k_def)
qed

section \<open>Formatting timestamps\<close>












lemma js_rem_pos: "0 < x \<Longrightarrow> \<lfloor>js_rem x 60\<rfloor> = \<lfloor>x\<rfloor> mod 60"
proof -
  assume "0 < x"
  then have "js_rem x 60 = x - 60 * of_int \<lfloor>x / 60\<rfloor>"
    by (simp add: js_rem_def js_trunc_def)
  then have "js_rem x 60 = x - of_int (60 * \<lfloor>x / 60\<rfloor>)"
    by simp
  then have "\<lfloor>js_rem x 60\<rfloor> = \<lfloor>x\<rfloor> - 60 * \<lfloor>x / 60\<rfloor>"
    by (simp only: floor_diff_of_int)
  moreover have "\<lfloor>x / 60\<rfloor> = \<lfloor>x\<rfloor> div 60"
    using floor_divide_real_eq_div [of 60 x] by simp
  ultimately show ?thesis
    by (simp add: minus_mult_div_eq_mod)
qed











lemma int_toString_small:
  "0 \<le> i \<Longrightarrow> i \<le> 2 ^ 53 \<Longrightarrow> int_toString i = nat_toString (nat i)"
proof -
  assume "0 \<le> i" and "i \<le> 2 ^ 53"
  then have "nat i \<le> 2 ^ 53"
    by (simp add: nat_le_iff)
  with \<open>0 \<le> i\<close> show ?thesis
    by (simp add: int_toString_def nat_Number_toString_def)
qed

lemma formatTimestamp_truthy:
  assumes "ToBoolean v" and "ToNumber v = Num x"
  shows "formatTimestamp v =
           padStart 2 CHR ''0'' (int_toString \<lfloor>round_double (x / 60)\<rfloor>) @ '':'' @
           padStart 2 CHR ''0'' (int_toString \<lfloor>js_rem x 60\<rfloor>)"
  using assms by (simp add: formatTimestamp_def Let_def)

lemma seconds_field:
  assumes "0 < x"
  shows "int_toString \<lfloor>js_rem x 60\<rfloor> = nat_toString (nat (\<lfloor>x\<rfloor> mod 60))"
proof -
  have "0 \<le> \<lfloor>x\<rfloor> mod 60" and "\<lfloor>x\<rfloor> mod 60 \<le> 2 ^ 53"
    by (simp_all add: order_trans [OF less_imp_le [OF pos_mod_bound]])
  then show ?thesis
    by (simp only: js_rem_pos [OF assms] int_toString_small)
qed

lemma minutes_field_exact:
  assumes "is_double x" and "0 < x" and "x < 2 ^ 53"
  shows "int_toString \<lfloor>round_double (x / 60)\<rfloor> = nat_toString (nat \<lfloor>x / 60\<rfloor>)"
proof -
  have "0 \<le> \<lfloor>x / 60\<rfloor>" using assms(2) by simp
  moreover have "x / 60 \<le> 2 ^ 53" using assms(2,3) by simp
  then have "\<lfloor>x / 60\<rfloor> \<le> 2 ^ 53"
    by (simp add: floor_le_iff)
  ultimately show ?thesis
    by (simp only: floor_div60_exact [OF assms] int_toString_small)
qed

lemma formatTimestamp_exact:
  assumes "ToBoolean w" and "ToNumber w = Num x" and "is_double x" and "0 < x" and "x < 2 ^ 53"
  shows "formatTimestamp w =
           padStart 2 CHR ''0'' (nat_toString (nat \<lfloor>x / 60\<rfloor>)) @ '':'' @
           padStart 2 CHR ''0'' (nat_toString (nat (\<lfloor>x\<rfloor> mod 60)))"
  using formatTimestamp_truthy [OF assms(1,2)]
  by (simp only: minutes_field_exact [OF assms(3,4,5)] seconds_field [OF assms(4)])



text \<open>Some doubles, and the timestamps of the example data.\<close>

lemma is_double_examples:
  "is_double 10 \<and> is_double 25 \<and> is_double 90 \<and> is_double 3661 \<and> is_double 6000 \<and>
   is_double (119 / 2)"
  using is_double_scaled [of 10 0] is_double_scaled [of 25 0] is_double_scaled [of 90 0]
    is_double_scaled [of 3661 0] is_double_scaled [of 6000 0] is_double_scaled [of 119 "- 1"]
  by simp

lemma formatTimestamp_examples:
  "formatTimestamp (Number (Num 0)) = ''00:00'' \<and>
   formatTimestamp (Number (Num 10)) = ''00:10'' \<and>
   formatTimestamp (Number (Num 25)) = ''00:25''"
  using formatTimestamp_exact [of "Number (Num 10)" 10] formatTimestamp_exact [of "Number (Num 25)" 25]
    is_double_examples
  by (simp add: formatTimestamp_def padStart_def nat_toString.simps digit_char_def)







section \<open>Selecting a lecture: the chat interface is gated on the transcript status\<close>

lemma activate_first_None: "activate_first i xs = None \<longleftrightarrow> i \<notin> data_lecture_id ` set xs"
  by (induction xs) auto

lemma activate_first_deactivated:
  "activate_first i (map (\<lambda>item. item\<lparr>active := False\<rparr>) xs) = None
     \<longleftrightarrow> i \<notin> data_lecture_id ` set xs"
  by (simp add: activate_first_None image_image)

text \<open>
  Claim C1, as the code has it. \<^verbatim>\<open>selectLecture\<close> requests the chat history and switches
  the chat interface on exactly when the lecture's \<^verbatim>\<open>transcript_status\<close> is
  \<^verbatim>\<open>'completed'\<close>; a history request is never sent for another status. When the clicked
  item is on the page, the call returns normally; for a completed lecture the chat
  interface is shown, the welcome screen hidden, the title set and the history requested;
  for any other status no request is sent, the visibility of the chat interface and of the
  welcome screen, the title and the messages stay as they were, and the warning toast
  that the transcript is not ready is shown at once. Hence after the call the chat
  interface is shown if and only if the lecture is completed or the interface was shown
  before.
\<close>

theorem selectLecture_gates_chat:
  "(snd (snd (selectLecture lecture s)) \<noteq> None \<longrightarrow> transcript_status lecture = ''completed'') \<and>
   (id' lecture \<in> data_lecture_id ` set (lecture_list s) \<longrightarrow>
      (\<exists>s'. selectLecture lecture s =
              (Normal, s',
               if transcript_status lecture = ''completed''
               then Some (HistoryRequest (authToken s) (id' lecture)) else None) \<and>
            (transcript_status lecture = ''completed'' \<longrightarrow>
               chatInterface s' = ''flex'' \<and> welcomeScreen s' = ''none'' \<and>
               current_lecture_title s' = title lecture \<and>
               toastContainer s' = toastContainer s) \<and>
            (transcript_status lecture \<noteq> ''completed'' \<longrightarrow>
               chatInterface s' = chatInterface s \<and> welcomeScreen s' = welcomeScreen s \<and>
               current_lecture_title s' = current_lecture_title s \<and>
               chat_messages s' = chat_messages s \<and>
               toastContainer s' = toastContainer s @
                 [(''Lecture transcript is not ready yet. Please wait for processing to complete.'',
                   ''warning'')]) \<and>
            (chatInterface s' = ''flex'') =
              (transcript_status lecture = ''completed'' \<or> chatInterface s = ''flex'')))"
proof (intro conjI impI)
  assume "snd (snd (selectLecture lecture s)) \<noteq> None"
  then show "transcript_status lecture = ''completed''"
    by (auto simp: selectLecture_def Let_def split: option.splits if_splits)
next
  assume "id' lecture \<in> data_lecture_id ` set (lecture_list s)"
  then obtain items where
    "activate_first (id' lecture) (map (\<lambda>item. item\<lparr>active := False\<rparr>) (lecture_list s)) = Some items"
    using activate_first_deactivated [of "id' lecture" "lecture_list s"] by auto
  then show "\<exists>s'. selectLecture lecture s =
              (Normal, s',
               if transcript_status lecture = ''completed''
               then Some (HistoryRequest (authToken s) (id' lecture)) else None) \<and>
            (transcript_status lecture = ''completed'' \<longrightarrow>
               chatInterface s' = ''flex'' \<and> welcomeScreen s' = ''none'' \<and>
               current_lecture_title s' = title lecture \<and>
               toastContainer s' = toastContainer s) \<and>
            (transcript_status lecture \<noteq> ''completed'' \<longrightarrow>
               chatInterface s' = chatInterface s \<and> welcomeScreen s' = welcomeScreen s \<and>
               current_lecture_title s' = current_lecture_title s \<and>
               chat_messages s' = chat_messages s \<and>
               toastContainer s' = toastContainer s @
                 [(''Lecture transcript is not ready yet. Please wait for processing to complete.'',
                   ''warning'')]) \<and>
            (chatInterface s' = ''flex'') =
              (transcript_status lecture = ''completed'' \<or> chatInterface s = ''flex'')"
    by (simp add: selectLecture_def Let_def loadChatHistory_begin_def showToast_def)
qed

text \<open>On the dashboard of the example, selecting the lecture that is still processing
  sends nothing and leaves the chat interface hidden; selecting the completed one requests
  its history and shows the chat interface.\<close>

theorem selectLecture_gates_chat_witness:
  "id' lecture_pending \<in> data_lecture_id ` set (lecture_list dashboard_state) \<and>
   transcript_status lecture_pending \<noteq> ''completed'' \<and>
   snd (snd (selectLecture lecture_pending dashboard_state)) = None \<and>
   chatInterface (fst (snd (selectLecture lecture_pending dashboard_state))) = ''none'' \<and>
   id' lecture_ready \<in> data_lecture_id ` set (lecture_list dashboard_state) \<and>
   transcript_status lecture_ready = ''completed'' \<and>
   snd (snd (selectLecture lecture_ready dashboard_state)) = Some (HistoryRequest (Some ''token'') 1) \<and>
   chatInterface (fst (snd (selectLecture lecture_ready dashboard_state))) = ''flex''"
  using selectLecture_gates_chat [of lecture_pending dashboard_state]
    selectLecture_gates_chat [of lecture_ready dashboard_state]
  by (auto simp: lecture_pending_def lecture_ready_def dashboard_state_def displayLectures_def
      showDashboard_def)

text \<open>Against claim C1 as stated (chat operations are refused for a lecture that is not
  completed, and the chat interface is open only for a completed one): after the completed
  lecture has been opened and the processing one clicked, the chat interface is still
  shown, the processing lecture is the current one, and both handlers send their requests
  for it.\<close>

theorem chat_stays_open_for_unready_lecture:
  "transcript_status lecture_pending \<noteq> ''completed'' \<and>
   chatInterface open_then_pending = ''flex'' \<and>
   currentLecture open_then_pending = Some lecture_pending \<and>
   snd (handleSummarize_begin open_then_pending) = Some (SummarizeRequest (Some ''token'') 2) \<and>
   snd (snd (handleChatMessage_begin (open_then_pending\<lparr>chat_input_field := ''why?''\<rparr>))) =
     Some (AskRequest (Some ''token'') ''why?'' 2, 0)"
  by (simp add: open_then_pending_def selectLecture_def Let_def lecture_pending_def
      lecture_ready_def dashboard_state_def displayLectures_def showDashboard_def
      loadChatHistory_begin_def showToast_def handleSummarize_begin_def showLoading_def
      handleChatMessage_begin_def addMessageToChat_def addTypingIndicator_def trim_def
      isWhiteSpace_def)

section \<open>Asking: what a submission adds to the conversation\<close>

lemma conversation_remove1:
  "filter is_message (remove1 (TypingIndicator i) xs) = filter is_message xs"
  by (induction xs) auto

lemma conversation_removeTypingIndicator:
  "conversation (removeTypingIndicator i s) = conversation s"
  by (simp add: conversation_def removeTypingIndicator_def conversation_remove1)

lemma conversation_showToast: "conversation (showToast m t s) = conversation s"
  by (simp add: conversation_def showToast_def)

lemma conversation_chat_catch: "conversation (chat_catch i s) = conversation s"
  by (simp add: chat_catch_def conversation_showToast conversation_removeTypingIndicator)

lemma conversation_resume:
  "conversation (handleChatMessage_resume i outcome s) =
     conversation s @ (case outcome of Ok d \<Rightarrow> bot_message d | _ \<Rightarrow> [])"
proof (cases outcome)
  case (Ok d)
  have "conversation (removeTypingIndicator i s) = conversation s"
    by (rule conversation_removeTypingIndicator)
  then show ?thesis
    using Ok
    by (cases "timestamp_references d")
       (simp_all add: handleChatMessage_resume_def addMessageToChat_def bot_message_def
          conversation_chat_catch, simp_all add: conversation_def)
qed (simp_all add: handleChatMessage_resume_def conversation_chat_catch conversation_showToast
       conversation_removeTypingIndicator)

lemma begin_sends:
  assumes "currentLecture s = Some lecture" and "trim (chat_input_field s) \<noteq> []"
  shows "handleChatMessage_begin s =
     (Normal,
      s\<lparr>chat_messages := chat_messages s @
           [Message User (trim (chat_input_field s)) [], TypingIndicator (next_node s)],
        chat_input_field := [], next_node := Suc (next_node s)\<rparr>,
      Some (AskRequest (authToken s) (trim (chat_input_field s)) (id' lecture), next_node s))"
  using assms
  by (simp add: handleChatMessage_begin_def Let_def addMessageToChat_def addTypingIndicator_def)

lemma toast_removeTypingIndicator:
  "toastContainer (removeTypingIndicator i s) = toastContainer s"
  by (simp add: removeTypingIndicator_def)

lemma toast_resume:
  "toastContainer (handleChatMessage_resume i outcome s) = toastContainer s @ failure_toast outcome"
proof (cases outcome)
  case (Ok d)
  then show ?thesis
    by (cases "timestamp_references d")
       (simp_all add: handleChatMessage_resume_def addMessageToChat_def failure_toast_def
          chat_catch_def showToast_def removeTypingIndicator_def)
qed (simp_all add: handleChatMessage_resume_def failure_toast_def chat_catch_def showToast_def
       removeTypingIndicator_def)

text \<open>
  Claim C2, as the code has it. With a lecture selected and a message that is not blank,
  \<^verbatim>\<open>handleChatMessage\<close> appends the user's message to the conversation on display before
  it sends the request, and shows no toast. When the outcome arrives, on whatever the
  conversation is by then, the handler appends nothing and shows one error toast if the
  request failed (the fetch rejects, the body cannot be read or is null, the response is
  not ok, or the answer carries null references), and otherwise, for an ok response,
  appends one bot message with the response text and the links of its timestamp
  references, and shows no toast. The
  handler never removes the question: with nothing else happening between the request and
  its outcome, a failed request leaves the conversation longer by the question alone.
\<close>

theorem handleChatMessage_conversation:
  assumes "currentLecture s = Some lecture" and "trim (chat_input_field s) \<noteq> []"
  shows "(\<exists>s1 typingIndicator.
            handleChatMessage_begin s =
              (Normal, s1,
               Some (AskRequest (authToken s) (trim (chat_input_field s)) (id' lecture),
                     typingIndicator)) \<and>
            conversation s1 = conversation s @ [Message User (trim (chat_input_field s)) []] \<and>
            toastContainer s1 = toastContainer s) \<and>
         conversation (handleChatMessage_resume i outcome s2) =
           conversation s2 @ (case outcome of Ok d \<Rightarrow> bot_message d | _ \<Rightarrow> []) \<and>
         toastContainer (handleChatMessage_resume i outcome s2) =
           toastContainer s2 @ failure_toast outcome \<and>
         fst (handleChatMessage outcome s) = Normal \<and>
         conversation (snd (handleChatMessage outcome s)) =
           conversation s @ Message User (trim (chat_input_field s)) [] #
             (case outcome of Ok d \<Rightarrow> bot_message d | _ \<Rightarrow> []) \<and>
         toastContainer (snd (handleChatMessage outcome s)) =
           toastContainer s @ failure_toast outcome \<and>
         ((\<forall>d. outcome \<noteq> Ok d) \<longrightarrow>
            conversation (snd (handleChatMessage outcome s)) =
              conversation s @ [Message User (trim (chat_input_field s)) []] \<and>
            length (toastContainer (snd (handleChatMessage outcome s))) =
              Suc (length (toastContainer s)))"
proof -
  let ?s1 = "s\<lparr>chat_messages := chat_messages s @
           [Message User (trim (chat_input_field s)) [], TypingIndicator (next_node s)],
        chat_input_field := [], next_node := Suc (next_node s)\<rparr>"
  have sent: "handleChatMessage_begin s =
      (Normal, ?s1,
       Some (AskRequest (authToken s) (trim (chat_input_field s)) (id' lecture), next_node s))"
    by (rule begin_sends [OF assms])
  have run: "handleChatMessage outcome s =
      (Normal, handleChatMessage_resume (next_node s) outcome ?s1)"
    by (simp add: handleChatMessage_def sent)
  have conv1: "conversation ?s1 = conversation s @ [Message User (trim (chat_input_field s)) []]"
    by (simp add: conversation_def)
  have toast1: "toastContainer ?s1 = toastContainer s"
    by simp
  have first: "\<exists>s1 typingIndicator.
      handleChatMessage_begin s =
        (Normal, s1,
         Some (AskRequest (authToken s) (trim (chat_input_field s)) (id' lecture),
               typingIndicator)) \<and>
      conversation s1 = conversation s @ [Message User (trim (chat_input_field s)) []] \<and>
      toastContainer s1 = toastContainer s"
    using sent conv1 toast1 by blast
  have conv: "conversation (snd (handleChatMessage outcome s)) =
      conversation s @ Message User (trim (chat_input_field s)) [] #
        (case outcome of Ok d \<Rightarrow> bot_message d | _ \<Rightarrow> [])"
    by (simp add: run conversation_resume conv1)
  have toast: "toastContainer (snd (handleChatMessage outcome s)) =
      toastContainer s @ failure_toast outcome"
    by (simp add: run toast_resume)
  have fail: "(\<forall>d. outcome \<noteq> Ok d) \<longrightarrow>
      (case outcome of Ok d \<Rightarrow> bot_message d | _ \<Rightarrow> []) = [] \<and>
      length (failure_toast outcome) = 1"
    by (cases outcome) (auto simp: failure_toast_def)
  show ?thesis
    using first conv toast fail
    by (simp add: run conversation_resume toast_resume)
qed

lemma asking_state_eval:
  "currentLecture asking_state = Some lecture_ready \<and>
   trim (chat_input_field asking_state) = ''what is a for-loop?'' \<and>
   conversation asking_state = []"
  by (simp add: asking_state_def selectLecture_def Let_def dashboard_state_def displayLectures_def
      showDashboard_def lecture_ready_def lecture_pending_def loadChatHistory_begin_def
      trim_def isWhiteSpace_def conversation_def)

text \<open>A question about for-loops, once refused by the server and once answered.\<close>

theorem handleChatMessage_conversation_witness:
  "currentLecture asking_state = Some lecture_ready \<and>
   trim (chat_input_field asking_state) \<noteq> [] \<and>
   conversation (snd (handleChatMessage (NotOk (Some ''Generation unavailable'')) asking_state)) =
     [Message User ''what is a for-loop?'' []] \<and>
   toastContainer (snd (handleChatMessage (NotOk (Some ''Generation unavailable'')) asking_state)) =
     [(''Generation unavailable'', ''error'')] \<and>
   conversation (snd (handleChatMessage
       (Ok \<lparr>response = ''A for-loop repeats.'',
            timestamp_references = Refs [\<lparr>start_time = Number (Num 10), end_time = Number (Num 25)\<rparr>]\<rparr>)
       asking_state)) =
     [Message User ''what is a for-loop?'' [], Message Bot ''A for-loop repeats.'' [''00:10 - 00:25'']] \<and>
   toastContainer (snd (handleChatMessage
       (Ok \<lparr>response = ''A for-loop repeats.'',
            timestamp_references = Refs [\<lparr>start_time = Number (Num 10), end_time = Number (Num 25)\<rparr>]\<rparr>)
       asking_state)) = []"
proof -
  have empty: "toastContainer asking_state = []"
    by (simp add: asking_state_def selectLecture_def Let_def dashboard_state_def
        displayLectures_def showDashboard_def lecture_ready_def lecture_pending_def
        loadChatHistory_begin_def)
  show ?thesis
    using handleChatMessage_conversation [where s = asking_state and lecture = lecture_ready
        and outcome = "NotOk (Some ''Generation unavailable'')"]
      handleChatMessage_conversation [where s = asking_state and lecture = lecture_ready
        and outcome = "Ok \<lparr>response = ''A for-loop repeats.'',
            timestamp_references = Refs [\<lparr>start_time = Number (Num 10), end_time = Number (Num 25)\<rparr>]\<rparr>"]
      asking_state_eval empty
      formatTimestamp_examples
    by (simp add: bot_message_def failure_toast_def detail_or_def link_text_def)
qed

text \<open>Against claim C2 as stated (nothing is appended when the call fails): the
  conversation is empty before the submission; after the request has failed it holds the
  question, so something was appended although no answer was generated.\<close>

theorem failed_ask_leaves_question_on_display:
  "conversation asking_state = [] \<and>
   conversation (snd (handleChatMessage FetchFailed asking_state)) =
     [Message User ''what is a for-loop?'' []]"
proof -
  have "handleChatMessage_begin asking_state =
     (Normal,
      asking_state\<lparr>chat_messages := chat_messages asking_state @
           [Message User (trim (chat_input_field asking_state)) [],
            TypingIndicator (next_node asking_state)],
        chat_input_field := [], next_node := Suc (next_node asking_state)\<rparr>,
      Some (AskRequest (authToken asking_state) (trim (chat_input_field asking_state))
              (id' lecture_ready),
            next_node asking_state))"
    using asking_state_eval by (intro begin_sends) auto
  then have "conversation (snd (handleChatMessage FetchFailed asking_state)) =
      [Message User ''what is a for-loop?'' []]"
    using asking_state_eval
    by (simp add: handleChatMessage_def handleChatMessage_resume_def conversation_chat_catch)
       (simp add: conversation_def)
  then show ?thesis
    using asking_state_eval by simp
qed

section \<open>Rendering the chat history\<close>

lemma render_chat_ok:
  "chat_timestamp_references c \<noteq> RefsNull \<Longrightarrow>
   render_chat c s = (Normal, s\<lparr>chat_messages := chat_messages s @ chat_nodes c\<rparr>)"
  by (cases "chat_timestamp_references c")
     (simp_all add: render_chat_def addMessageToChat_def chat_nodes_def)

lemma forEach_chat_ok:
  "\<forall>c \<in> set cs. chat_timestamp_references c \<noteq> RefsNull \<Longrightarrow>
   forEach_chat cs s = (Normal, s\<lparr>chat_messages := chat_messages s @ concat (map chat_nodes cs)\<rparr>)"
proof (induction cs arbitrary: s)
  case Nil
  then show ?case by simp
next
  case (Cons c cs)
  then show ?case by (simp add: render_chat_ok)
qed

lemma concat_pairs_nth:
  assumes "\<And>x. f x = [g x, h x]" and "i < length xs"
  shows "concat (map f xs) ! (2 * i) = g (xs ! i) \<and> concat (map f xs) ! (2 * i + 1) = h (xs ! i)"
  using assms(2)
proof (induction xs arbitrary: i)
  case Nil
  then show ?case by simp
next
  case (Cons x xs)
  show ?case
  proof (cases i)
    case 0
    then show ?thesis by (simp add: assms(1))
  next
    case (Suc j)
    with Cons.prems have "j < length xs" by simp
    from Cons.IH [OF this] Suc show ?thesis by (simp add: assms(1))
  qed
qed

text \<open>
  Claim C3, as the code has it. \<^verbatim>\<open>loadChatHistory\<close> renders the list it receives in
  reverse: when no turn carries null references, the messages on display are the turns of
  the reversed list, each as its user message followed by its bot response, so the pair
  shown at position \<open>i\<close> is the turn at position \<open>n - 1 - i\<close> of the list returned. The
  display is oldest first exactly when the endpoint returns the newest turn first.
\<close>

theorem loadChatHistory_renders_reversed:
  assumes "\<forall>c \<in> set history. chat_timestamp_references c \<noteq> RefsNull"
  shows "chat_messages (loadChatHistory_resume (Ok history) s) =
           concat (map chat_nodes (rev history)) \<and>
         (\<forall>i < length history.
            chat_messages (loadChatHistory_resume (Ok history) s) ! (2 * i) =
              Message User (user_message (history ! (length history - Suc i))) [] \<and>
            chat_messages (loadChatHistory_resume (Ok history) s) ! (2 * i + 1) =
              chat_nodes (history ! (length history - Suc i)) ! 1)"
proof -
  have all: "\<forall>c \<in> set (rev history). chat_timestamp_references c \<noteq> RefsNull"
    using assms by simp
  have shown: "chat_messages (loadChatHistory_resume (Ok history) s) =
      concat (map chat_nodes (rev history))"
    by (simp add: loadChatHistory_resume_def forEach_chat_ok [OF all])
  have "\<And>c. chat_nodes c = [Message User (user_message c) [], chat_nodes c ! 1]"
    by (simp add: chat_nodes_def)
  then have "\<forall>i < length (rev history).
      concat (map chat_nodes (rev history)) ! (2 * i) =
        Message User (user_message (rev history ! i)) [] \<and>
      concat (map chat_nodes (rev history)) ! (2 * i + 1) = chat_nodes (rev history ! i) ! 1"
    using concat_pairs_nth [of chat_nodes "\<lambda>c. Message User (user_message c) []" "\<lambda>c. chat_nodes c ! 1" _ "rev history"]
    by blast
  then show ?thesis
    by (simp add: shown rev_nth)
qed

text \<open>A history of two turns, returned oldest first, is shown newest first.\<close>

theorem loadChatHistory_renders_reversed_witness:
  "chat_timestamp_references turn_first \<noteq> RefsNull \<and>
   chat_timestamp_references turn_second \<noteq> RefsNull \<and>
   chat_messages (loadChatHistory_resume (Ok [turn_first, turn_second]) dashboard_state) =
     [Message User ''and a for-loop?'' [], Message Bot ''It counts.'' [''00:10 - 00:25''],
      Message User ''what is a loop?'' [], Message Bot ''A repetition.'' [''00:00 - 00:10'']]"
  using loadChatHistory_renders_reversed [of "[turn_first, turn_second]" dashboard_state]
    formatTimestamp_examples
  by (simp add: turn_first_def turn_second_def chat_nodes_def link_text_def)

text \<open>Against claim C3 as stated (the displayed order is the returned order): for that
  history the first message on display is the question of the second turn, and the
  display differs from the turns in the order returned.\<close>

theorem history_not_rendered_in_returned_order:
  "chat_messages (loadChatHistory_resume (Ok [turn_first, turn_second]) dashboard_state) ! 0 =
     Message User (user_message turn_second) [] \<and>
   chat_messages (loadChatHistory_resume (Ok [turn_first, turn_second]) dashboard_state) \<noteq>
     concat (map chat_nodes [turn_first, turn_second])"
  by (simp add: loadChatHistory_resume_def render_chat_def addMessageToChat_def
      turn_first_def turn_second_def chat_nodes_def)

section \<open>Blank messages\<close>

lemma dropWhile_all: "list_all P s \<Longrightarrow> dropWhile P s = []"
  by (induction s) auto

lemma trim_blank: "list_all isWhiteSpace s \<Longrightarrow> trim s = []"
  by (simp add: trim_def dropWhile_all)

lemma trim_empty_iff: "trim s = [] \<longleftrightarrow> list_all isWhiteSpace s"
proof
  assume "trim s = []"
  then have "dropWhile isWhiteSpace (rev (dropWhile isWhiteSpace s)) = []"
    by (simp add: trim_def)
  then have "\<forall>c \<in> set (dropWhile isWhiteSpace s). isWhiteSpace c"
    by (simp add: dropWhile_eq_Nil_conv)
  then have "dropWhile isWhiteSpace s = []"
    by (metis hd_dropWhile list.set_sel(1))
  then show "list_all isWhiteSpace s"
    by (simp add: dropWhile_eq_Nil_conv list_all_iff)
qed (rule trim_blank)

text \<open>
  Claim C8. A submission whose message is empty or consists of white space only sends no
  request, adds nothing to the chat and leaves the input field alone, and the handler
  returns normally; with a lecture selected the state is not changed at all (without
  one, the only effect is the toast asking to select a lecture).
\<close>

theorem blank_message_is_ignored:
  assumes "list_all isWhiteSpace (chat_input_field s)"
  shows "\<exists>s'. handleChatMessage_begin s = (Normal, s', None) \<and>
              handleChatMessage outcome s = (Normal, s') \<and>
              chat_messages s' = chat_messages s \<and>
              chat_input_field s' = chat_input_field s \<and>
              (currentLecture s \<noteq> None \<longrightarrow> s' = s)"
proof (cases "currentLecture s")
  case None
  then show ?thesis
    by (simp add: handleChatMessage_begin_def handleChatMessage_def showToast_def)
next
  case (Some lecture)
  then show ?thesis
    using trim_blank [OF assms]
    by (simp add: handleChatMessage_begin_def handleChatMessage_def)
qed

text \<open>Spaces, a tab and a line feed typed into the input field with a lecture selected.\<close>

theorem blank_message_is_ignored_witness:
  "list_all isWhiteSpace (chat_input_field blank_state) \<and>
   chat_input_field blank_state \<noteq> [] \<and>
   currentLecture blank_state \<noteq> None \<and>
   handleChatMessage_begin blank_state = (Normal, blank_state, None) \<and>
   handleChatMessage FetchFailed blank_state = (Normal, blank_state)"
proof -
  have blank: "list_all isWhiteSpace (chat_input_field blank_state)"
    by (simp add: blank_state_def isWhiteSpace_def)
  have sel: "currentLecture blank_state \<noteq> None"
    by (simp add: blank_state_def selectLecture_def Let_def dashboard_state_def displayLectures_def
        showDashboard_def lecture_ready_def lecture_pending_def loadChatHistory_begin_def)
  have "chat_input_field blank_state \<noteq> []"
    by (simp add: blank_state_def)
  with blank sel show ?thesis
    using blank_message_is_ignored [OF blank, of FetchFailed] by auto
qed

section \<open>The selected lecture and the guards of the handlers\<close>

text \<open>
  Claim C10. \<^verbatim>\<open>selectLecture\<close> stores the clicked lecture in \<^verbatim>\<open>currentLecture\<close> whatever
  its status, also when the call does not return normally. On the state it leaves,
  \<^verbatim>\<open>handleSummarize\<close> passes its guard and sends the summarize request for that lecture,
  and \<^verbatim>\<open>handleChatMessage\<close> passes its guard and, for a message that is not blank,
  sends the ask request for that lecture; neither shows a toast.
\<close>

theorem selectLecture_sets_currentLecture:
  "currentLecture (fst (snd (selectLecture lecture s))) = Some lecture \<and>
   snd (handleSummarize_begin (fst (snd (selectLecture lecture s)))) =
     Some (SummarizeRequest (authToken s) (id' lecture)) \<and>
   toastContainer (fst (handleSummarize_begin (fst (snd (selectLecture lecture s))))) =
     toastContainer (fst (snd (selectLecture lecture s))) \<and>
   (trim (chat_input_field s) \<noteq> [] \<longrightarrow>
      snd (snd (handleChatMessage_begin (fst (snd (selectLecture lecture s))))) =
        Some (AskRequest (authToken s) (trim (chat_input_field s)) (id' lecture), next_node s) \<and>
      toastContainer (fst (snd (handleChatMessage_begin (fst (snd (selectLecture lecture s)))))) =
        toastContainer (fst (snd (selectLecture lecture s))))"
proof -
  let ?s1 = "fst (snd (selectLecture lecture s))"
  have cur: "currentLecture ?s1 = Some lecture"
    by (simp add: selectLecture_def Let_def showToast_def split: option.splits)
  have same: "authToken ?s1 = authToken s \<and> chat_input_field ?s1 = chat_input_field s \<and>
      next_node ?s1 = next_node s"
    by (simp add: selectLecture_def Let_def showToast_def split: option.splits)
  have summ: "handleSummarize_begin ?s1 =
      (showLoading ?s1, Some (SummarizeRequest (authToken s) (id' lecture)))"
    using cur same by (simp add: handleSummarize_begin_def Let_def showLoading_def)
  have ask: "trim (chat_input_field s) \<noteq> [] \<longrightarrow>
      snd (snd (handleChatMessage_begin ?s1)) =
        Some (AskRequest (authToken s) (trim (chat_input_field s)) (id' lecture), next_node s) \<and>
      toastContainer (fst (snd (handleChatMessage_begin ?s1))) = toastContainer ?s1"
    using cur same
    by (simp add: handleChatMessage_begin_def Let_def addMessageToChat_def addTypingIndicator_def)
  show ?thesis
    using cur summ ask by (simp add: showLoading_def)
qed

text \<open>After the lecture that is still processing has been selected, both handlers send
  their requests for it.\<close>

theorem selectLecture_sets_currentLecture_witness:
  "transcript_status lecture_pending \<noteq> ''completed'' \<and>
   trim (chat_input_field (dashboard_state\<lparr>chat_input_field := ''why?''\<rparr>)) \<noteq> [] \<and>
   currentLecture pending_selected = Some lecture_pending \<and>
   snd (handleSummarize_begin pending_selected) = Some (SummarizeRequest (Some ''token'') 2) \<and>
   snd (snd (handleChatMessage_begin pending_selected)) =
     Some (AskRequest (Some ''token'') ''why?'' 2, 0)"
  using selectLecture_sets_currentLecture
    [of lecture_pending "dashboard_state\<lparr>chat_input_field := ''why?''\<rparr>"]
  by (simp add: pending_selected_def lecture_pending_def dashboard_state_def displayLectures_def
      showDashboard_def trim_def isWhiteSpace_def)

section \<open>The status state machine\<close>









section \<open>Search is confined to one lecture\<close>

lemma ex_search: "search example_index 1 [1, 0] 3 = [example_index ! 0, example_index ! 2, example_index ! 3]"
  by (simp add: search_def example_index_def cosine_similarity_def dot_def)

lemma set_search: "set (search index lecture q k) \<subseteq> {c \<in> set index. lecture_id c = lecture}"
proof -
  have "set (search index lecture q k) \<subseteq>
      set (sort_key (\<lambda>c. (- cosine_similarity (vector c) q, sequence_index c))
        (filter (\<lambda>c. lecture_id c = lecture) index))"
    unfolding search_def by (rule set_take_subset)
  then show ?thesis by auto
qed

text \<open>
  Claim C5. Whatever the query vector and \<open>k\<close>, every chunk \<open>search\<close> returns for a
  lecture is a chunk of the index that belongs to that lecture; a chunk of another
  lecture is never returned, also when both lectures hold chunks with the same content.
\<close>

theorem search_lecture_isolation:
  "set (search index lecture_A query_vector k) \<subseteq> {c \<in> set index. lecture_id c = lecture_A} \<and>
   (lecture_A \<noteq> lecture_B \<longrightarrow>
      (\<forall>c \<in> set (search index lecture_A query_vector k). lecture_id c \<noteq> lecture_B))"
  using set_search [of index lecture_A query_vector k] by auto

text \<open>The first two chunks of the example index have the same text and vector and belong
  to lectures 1 and 2; a search in lecture 1 returns the three chunks of lecture 1.\<close>

theorem search_lecture_isolation_witness:
  "(1::nat) \<noteq> 2 \<and>
   chunk_text (example_index ! 0) = chunk_text (example_index ! 1) \<and>
   lecture_id (example_index ! 1) = 2 \<and>
   search example_index 1 [1, 0] 3 = [example_index ! 0, example_index ! 2, example_index ! 3] \<and>
   list_all (\<lambda>c. lecture_id c = 1) (search example_index 1 [1, 0] 3)"
  using search_lecture_isolation [of example_index 1 "[1, 0]" 3 2] ex_search
  by (simp add: example_index_def)

section \<open>Retrieval returns no two spans that overlap too much\<close>

lemma ex_dedup: "deduplicate (search example_index 1 [1, 0] 3) = [example_index ! 0, example_index ! 3]"
  unfolding ex_search by (simp add: deduplicate_def example_index_def overlaps_too_much_def overlap_def duration_def)

lemma overlaps_too_much_sym: "overlaps_too_much a b = overlaps_too_much b a"
  by (simp add: overlaps_too_much_def overlap_def min.commute max.commute)

lemma dedup_from_kept:
  "c \<in> set (dedup_from higher cs) \<Longrightarrow>
   \<exists>j < length cs. cs ! j = c \<and> (\<forall>i < j. \<not> overlaps_too_much (cs ! i) c) \<and>
     (\<forall>h \<in> set higher. \<not> overlaps_too_much h c)"
proof (induction cs arbitrary: higher)
  case Nil
  then show ?case by simp
next
  case (Cons x cs)
  show ?case
  proof (cases "c \<in> set (dedup_from (higher @ [x]) cs)")
    case True
    from Cons.IH [OF True] obtain j where j: "j < length cs" "cs ! j = c"
      and before: "\<forall>i < j. \<not> overlaps_too_much (cs ! i) c"
      and high: "\<forall>h \<in> set (higher @ [x]). \<not> overlaps_too_much h c"
      by blast
    have "\<forall>i < Suc j. \<not> overlaps_too_much ((x # cs) ! i) c"
    proof (intro allI impI)
      fix i assume "i < Suc j"
      then show "\<not> overlaps_too_much ((x # cs) ! i) c"
        using before high by (cases i) auto
    qed
    moreover have "Suc j < length (x # cs)" "(x # cs) ! Suc j = c"
      using j by simp_all
    moreover have "\<forall>h \<in> set higher. \<not> overlaps_too_much h c"
      using high by simp
    ultimately show ?thesis by blast
  next
    case False
    with Cons.prems have "c = x" and "\<not> list_ex (\<lambda>h. overlaps_too_much h x) higher"
      by (auto split: if_splits)
    then have "(x # cs) ! 0 = c \<and> (\<forall>h \<in> set higher. \<not> overlaps_too_much h c)"
      by (simp add: list_ex_iff)
    then show ?thesis by fastforce
  qed
qed

lemma dedup_from_separated:
  "sorted_wrt (\<lambda>a b. \<not> overlaps_too_much a b) (dedup_from higher cs)"
proof (induction cs arbitrary: higher)
  case Nil
  then show ?case by simp
next
  case (Cons x cs)
  have "\<forall>c \<in> set (dedup_from (higher @ [x]) cs). \<not> overlaps_too_much x c"
    using dedup_from_kept [of _ "higher @ [x]" cs] by auto
  with Cons.IH [of "higher @ [x]"] show ?case by simp
qed

lemma dedup_from_subset: "set (dedup_from higher cs) \<subseteq> set cs"
  using dedup_from_kept [of _ higher cs] by (metis nth_mem subsetI)

lemma deduplicate_drops_lower:
  assumes "distinct cs" and "i < j" and "j < length cs" and "overlaps_too_much (cs ! i) (cs ! j)"
  shows "cs ! j \<notin> set (deduplicate cs)"
proof
  assume "cs ! j \<in> set (deduplicate cs)"
  then obtain j' where j': "j' < length cs" "cs ! j' = cs ! j"
    and before: "\<forall>i < j'. \<not> overlaps_too_much (cs ! i) (cs ! j)"
    unfolding deduplicate_def using dedup_from_kept [of "cs ! j" "[]" cs] by blast
  from j' assms(1,3) have "j' = j"
    by (simp add: nth_eq_iff_index_eq)
  with before assms(2,4) show False by blast
qed

lemma deduplicate_pairwise:
  assumes "i < length (deduplicate cs)" and "j < length (deduplicate cs)" and "i \<noteq> j"
  shows "\<not> overlaps_too_much (deduplicate cs ! i) (deduplicate cs ! j)"
proof -
  have sep: "sorted_wrt (\<lambda>a b. \<not> overlaps_too_much a b) (deduplicate cs)"
    unfolding deduplicate_def by (rule dedup_from_separated)
  show ?thesis
  proof (cases "i < j")
    case True
    then show ?thesis using sep assms(2) by (simp add: sorted_wrt_iff_nth_less)
  next
    case False
    with assms(3) have "j < i" by simp
    then have "\<not> overlaps_too_much (deduplicate cs ! j) (deduplicate cs ! i)"
      using sep assms(1) by (simp add: sorted_wrt_iff_nth_less)
    then show ?thesis by (simp add: overlaps_too_much_sym)
  qed
qed

lemma distinct_search: "distinct index \<Longrightarrow> distinct (search index lecture q k)"
  by (simp add: search_def distinct_take)

text \<open>
  Claim C6. When \<open>retrieve\<close> returns spans, no two of them (at different positions)
  overlap by more than half the duration of the shorter one. The spans are among the
  chunks the search returned for the embedded query, and when the entries of the index
  are distinct, of any two retrieved chunks that overlap by more than that, the one
  ranked lower is not among the spans.
\<close>

theorem retrieve_no_overlapping_spans:
  assumes "retrieve embedder status index lecture query_text k = Inr spans"
  shows "(\<forall>i < length spans. \<forall>j < length spans.
            i \<noteq> j \<longrightarrow> \<not> overlaps_too_much (spans ! i) (spans ! j)) \<and>
         (\<exists>query_vector. embedder query_text = Some query_vector \<and>
            set spans \<subseteq> set (search index lecture query_vector k) \<and>
            (distinct index \<longrightarrow>
               (\<forall>j < length (search index lecture query_vector k). \<forall>i < j.
                  overlaps_too_much (search index lecture query_vector k ! i)
                    (search index lecture query_vector k ! j) \<longrightarrow>
                  search index lecture query_vector k ! j \<notin> set spans)))"
proof -
  from assms obtain v where v: "embedder query_text = Some v"
    and spans: "spans = deduplicate (search index lecture v k)"
    by (auto simp: retrieve_def split: if_splits option.splits)
  have "\<forall>i < length spans. \<forall>j < length spans.
      i \<noteq> j \<longrightarrow> \<not> overlaps_too_much (spans ! i) (spans ! j)"
    unfolding spans using deduplicate_pairwise by blast
  moreover have "set spans \<subseteq> set (search index lecture v k)"
    unfolding spans deduplicate_def by (rule dedup_from_subset)
  moreover have "distinct index \<longrightarrow>
      (\<forall>j < length (search index lecture v k). \<forall>i < j.
         overlaps_too_much (search index lecture v k ! i) (search index lecture v k ! j) \<longrightarrow>
         search index lecture v k ! j \<notin> set spans)"
    unfolding spans using deduplicate_drops_lower [OF distinct_search] by blast
  ultimately show ?thesis using v by blast
qed

text \<open>In lecture 1 of the example the chunk from 10 to 50 overlaps the better ranked chunk
  from 0 to 40 by 30 seconds and is dropped; the chunk from 45 to 80 stays.\<close>

theorem retrieve_no_overlapping_spans_witness:
  "retrieve (\<lambda>q. Some [1, 0]) completed example_index 1 ''what is a for-loop?'' 3 =
     Inr [example_index ! 0, example_index ! 3] \<and>
   overlaps_too_much (example_index ! 0) (example_index ! 2) \<and>
   \<not> overlaps_too_much (example_index ! 0) (example_index ! 3) \<and>
   distinct example_index"
proof -
  have run: "retrieve (\<lambda>q. Some [1, 0]) completed example_index 1 ''what is a for-loop?'' 3 =
      Inr [example_index ! 0, example_index ! 3]"
    using ex_dedup by (simp add: retrieve_def)
  have "overlaps_too_much (example_index ! 0) (example_index ! 2) \<and>
      \<not> overlaps_too_much (example_index ! 0) (example_index ! 3) \<and> distinct example_index"
    by (simp add: example_index_def overlaps_too_much_def overlap_def duration_def)
  then show ?thesis
    using run retrieve_no_overlapping_spans [OF run] by simp
qed

end
